theory Spec2Isabelle
  imports Main
begin

section \<open>JavaScript values, errors and promise results\<close>

text \<open>
  The storage module is dynamically typed: what \<^verbatim>\<open>getFile\<close> resolves to is a string, an
  \<^verbatim>\<open>ArrayBuffer\<close>, \<^verbatim>\<open>null\<close>, or whatever the decryption primitive returns, and the objects
  read back from the hub are the results of \<^verbatim>\<open>JSON.parse\<close>. Values are therefore one
  datatype. A string is a list of bytes (\<^typ>\<open>string\<close>); \<open>JBuf\<close> stands for both
  \<^verbatim>\<open>Buffer\<close> and \<^verbatim>\<open>ArrayBuffer\<close>, which hold the same bytes.
\<close>

datatype jsval =
    JUndefined
  | JNull
  | JBool bool
  | JNum int
  | JStr string
  | JBuf string
  | JObj "(string \<times> jsval) list"

text \<open>\<^verbatim>\<open>!v\<close> is \<open>\<not> truthy v\<close>.\<close>

fun truthy :: "jsval \<Rightarrow> bool" where
  "truthy JUndefined = False"
| "truthy JNull = False"
| "truthy (JBool b) = b"
| "truthy (JNum n) = (n \<noteq> 0)"
| "truthy (JStr s) = (s \<noteq> [])"
| "truthy (JBuf b) = True"
| "truthy (JObj kvs) = True"

text \<open>\<^verbatim>\<open>typeof v === 'string'\<close>.\<close>

fun is_string :: "jsval \<Rightarrow> bool" where
  "is_string (JStr s) = True"
| "is_string v = False"

text \<open>
  Every way a promise of the module is rejected, or a function throws. The message of an
  error is the text the source builds; the two HTTP errors keep the pieces of their
  template (\<^verbatim>\<open>`getFile ${path} failed with HTTP status ${response.status}`\<close> and
  \<^verbatim>\<open>`listFiles failed with HTTP status ${httpStatus}`\<close>). \<open>RejectedNull\<close> is the
  rejection \<^verbatim>\<open>reject(null)\<close>, whose reason is not an error object.
\<close>

datatype error =
    InvalidStateError string
  | SignatureVerificationError string
  | Error string
  | GetFileHttpError string nat
  | ListFilesHttpError nat
  | SyntaxError
  | TypeError
  | RejectedNull

text \<open>
  A promise (or a call that may throw) is its outcome: \<open>Inl\<close> the rejection, \<open>Inr\<close> the
  value. \<open>andThen p f\<close> is \<^verbatim>\<open>p.then(f)\<close>.
\<close>

definition andThen :: "error + 'a \<Rightarrow> ('a \<Rightarrow> error + 'b) \<Rightarrow> error + 'b" where
  "andThen p f = (case p of Inl e \<Rightarrow> Inl e | Inr x \<Rightarrow> f x)"

text \<open>
  Property read \<^verbatim>\<open>o.k\<close>: a \<^verbatim>\<open>TypeError\<close> on \<^verbatim>\<open>null\<close> and \<^verbatim>\<open>undefined\<close>, the field
  of an object (\<^verbatim>\<open>undefined\<close> when it has none), \<^verbatim>\<open>undefined\<close> on the other values for
  the field names the module reads.
\<close>

fun get_prop :: "jsval \<Rightarrow> string \<Rightarrow> error + jsval" where
  "get_prop JUndefined k = Inl TypeError"
| "get_prop JNull k = Inl TypeError"
| "get_prop (JObj kvs) k = Inr (case map_of kvs k of None \<Rightarrow> JUndefined | Some v \<Rightarrow> v)"
| "get_prop v k = Inr JUndefined"

text \<open>
  \<^verbatim>\<open>Buffer.from(v)\<close> for the values the module passes to it (a string or an
  \<^verbatim>\<open>ArrayBuffer\<close>).
\<close>

fun Buffer_from :: "jsval \<Rightarrow> error + jsval" where
  "Buffer_from (JStr s) = Inr (JBuf s)"
| "Buffer_from (JBuf b) = Inr (JBuf b)"
| "Buffer_from v = Inl TypeError"

text \<open>\<^verbatim>\<open>s.startsWith(p)\<close>.\<close>

definition startsWith :: "string \<Rightarrow> string \<Rightarrow> bool" where
  "startsWith s p = (take (length p) s = p)"

section \<open>The session, the hub connection and the external collaborators\<close>

record app_config =
  appDomain :: string

text \<open>
  The caller, a \<^verbatim>\<open>UserSession\<close>: \<^verbatim>\<open>caller.session.appConfig\<close> (absent in a session that
  was never configured) and \<^verbatim>\<open>caller.loadUserData().appPrivateKey\<close>.
\<close>

record user_session =
  appConfig :: "app_config option"
  appPrivateKey :: string

record gaia_hub_config =
  server :: string
  address :: string
  token :: string

record response =
  status :: nat
  content_type :: "string option"
  body :: string

text \<open>
  A profile as \<^verbatim>\<open>getUserAppFileUrl\<close> reads it: whether it has an \<^verbatim>\<open>apps\<close> property, and
  the bucket URL registered there for each application origin.
\<close>

record profile =
  apps :: "(string \<rightharpoonup> string) option"

text \<open>The object \<^verbatim>\<open>signECDSA\<close> returns.\<close>

record signature_object =
  signature :: string
  publicKey :: string

text \<open>
  The listing protocol: the request \<^verbatim>\<open>listFilesLoop\<close> posts (its URL, its
  \<^verbatim>\<open>Authorization\<close> header and its body) and the hub's answer, read as the source reads
  it: the status, and the parsed body (\<open>None\<close> when the text is not JSON) with its
  \<^verbatim>\<open>entries\<close> (\<open>None\<close> when \<^verbatim>\<open>null\<close> or missing) and its \<^verbatim>\<open>page\<close> cursor.
\<close>

record list_request =
  req_url :: string
  req_authorization :: string
  req_body :: string

record list_page =
  entries :: "string list option"
  page :: "string option"

record list_response =
  list_status :: nat
  list_json :: "list_page option"

text \<open>
  What the module imports and does not define: the transport (\<^verbatim>\<open>fetch\<close>), the hub
  connection (\<^verbatim>\<open>./hub\<close>), the profile lookup, the ECIES and ECDSA primitives
  (\<^verbatim>\<open>../encryption\<close>), \<^verbatim>\<open>JSON\<close>, and the library calls of \<^verbatim>\<open>keys.js\<close>
  (\<^verbatim>\<open>new Buffer(s, 'hex')\<close>, \<^verbatim>\<open>ECPair.fromPrivateKey(b).publicKey.toString('hex')\<close>,
  \<^verbatim>\<open>bcrypto.hash160\<close>, \<^verbatim>\<open>baddress.toBase58Check\<close>). They are parameters of the model;
  any of them that can throw returns a sum. \<^verbatim>\<open>JSON.parse\<close> returns \<open>None\<close> when it
  throws its \<^verbatim>\<open>SyntaxError\<close>. The hub may answer a listing request by what it was
  asked before: \<open>post\<close> takes the requests already made and the new one. When several
  promises joined by \<^verbatim>\<open>Promise.all\<close> are rejected, the one that is rejected first in time
  decides; which one that is depends on when the network answers, and \<open>schedule\<close> is
  that choice: given the reasons of the rejected members, in the order of the array, it
  picks the position of the first in time.
\<close>

record env =
  fetch :: "string \<Rightarrow> response"
  post :: "list_request list \<Rightarrow> list_request \<Rightarrow> list_response"
  lookupProfile :: "string \<Rightarrow> string option \<Rightarrow> error + profile"
  getOrSetLocalGaiaHubConnection :: "user_session \<Rightarrow> error + gaia_hub_config"
  getFullReadUrl :: "string \<Rightarrow> gaia_hub_config \<Rightarrow> string"
  encryptECIES :: "string \<Rightarrow> jsval \<Rightarrow> error + jsval"
  decryptECIES :: "string \<Rightarrow> jsval \<Rightarrow> error + jsval"
  signECDSA :: "string \<Rightarrow> jsval \<Rightarrow> error + signature_object"
  verifyECDSA :: "jsval \<Rightarrow> jsval \<Rightarrow> jsval \<Rightarrow> error + bool"
  JSON_stringify :: "jsval \<Rightarrow> string"
  JSON_parse :: "jsval \<Rightarrow> jsval option"
  bufferFromHex :: "string \<Rightarrow> string"
  ecPublicKeyHex :: "string \<Rightarrow> error + string"
  hash160 :: "string \<Rightarrow> string"
  toBase58Check :: "string \<Rightarrow> nat \<Rightarrow> string"
  schedule :: "error list \<Rightarrow> nat"

text \<open>
  \<^verbatim>\<open>Promise.all\<close> of three promises: the three values when all are fulfilled, and
  otherwise the reason of the member that is rejected first.
\<close>

definition rejection :: "error + 'a \<Rightarrow> error list" where
  "rejection p = (case p of Inl e \<Rightarrow> [e] | Inr x \<Rightarrow> [])"

definition first_rejected :: "env \<Rightarrow> error list \<Rightarrow> error" where
  "first_rejected E es = es ! (schedule E es mod length es)"

definition Promise_all3 ::
  "env \<Rightarrow> error + 'a \<Rightarrow> error + 'b \<Rightarrow> error + 'c \<Rightarrow> error + ('a \<times> 'b \<times> 'c)" where
  "Promise_all3 E p1 p2 p3 =
     (case (p1, p2, p3) of
        (Inr a, Inr b, Inr c) \<Rightarrow> Inr (a, b, c)
      | _ \<Rightarrow> Inl (first_rejected E (rejection p1 @ rejection p2 @ rejection p3)))"

section \<open>keys.js\<close>

text \<open>\<^verbatim>\<open>new Buffer(publicKey, 'hex')\<close> throws a \<^verbatim>\<open>TypeError\<close> when its argument is not a string.\<close>

definition publicKeyToAddress :: "env \<Rightarrow> jsval \<Rightarrow> error + string" where
  "publicKeyToAddress E pk =
     (case pk of
        JStr s \<Rightarrow> Inr (toBase58Check E (hash160 E (bufferFromHex E s)) 0)
      | _ \<Rightarrow> Inl TypeError)"

definition getPublicKeyFromPrivate :: "env \<Rightarrow> string \<Rightarrow> error + string" where
  "getPublicKeyFromPrivate E privateKey = ecPublicKeyHex E (bufferFromHex E privateKey)"

section \<open>Reading: URL resolution, trust anchor, fetch\<close>

definition SIGNATURE_FILE_SUFFIX :: string where
  "SIGNATURE_FILE_SUFFIX = ''.sig''"

text \<open>
  \<^verbatim>\<open>bucketUrl.replace(/\/?(\?|#|$)/, '/$1')\<close>: the leftmost place where an optional slash
  is followed by \<^verbatim>\<open>?\<close>, \<^verbatim>\<open>#\<close> or the end of the string gets exactly one slash.
\<close>

fun replace_slash :: "string \<Rightarrow> string" where
  "replace_slash [] = ''/''"
| "replace_slash (c # cs) =
     (if c = CHR ''/'' \<and> (case cs of [] \<Rightarrow> True | d # _ \<Rightarrow> d = CHR ''?'' \<or> d = CHR ''#'')
      then c # cs
      else if c = CHR ''?'' \<or> c = CHR ''#'' then CHR ''/'' # c # cs
      else c # replace_slash cs)"

text \<open>The URL is \<open>None\<close> where the source yields \<^verbatim>\<open>null\<close>.\<close>

definition getUserAppFileUrl ::
  "env \<Rightarrow> string \<Rightarrow> string \<Rightarrow> string \<Rightarrow> string option \<Rightarrow> error + string option" where
  "getUserAppFileUrl E path uname appOrigin zoneFileLookupURL =
     andThen (lookupProfile E uname zoneFileLookupURL) (\<lambda>prof.
       let bucketUrl =
             (case apps prof of
                Some as \<Rightarrow> (case as appOrigin of Some u \<Rightarrow> Some u | None \<Rightarrow> None)
              | None \<Rightarrow> None)
       in case bucketUrl of
            Some u \<Rightarrow> if u \<noteq> [] then Inr (Some (replace_slash u @ path)) else Inr None
          | None \<Rightarrow> Inr None)"

text \<open>
  The character class \<^verbatim>\<open>[a-km-zA-HJ-NP-Z0-9]\<close> and the match of
  \<^verbatim>\<open>/([13][a-km-zA-HJ-NP-Z0-9]{26,35})/\<close>: the leftmost start, as many characters as
  the quantifier allows.
\<close>

definition is_address_char :: "char \<Rightarrow> bool" where
  "is_address_char c =
     (let n = (of_char c :: nat)
      in (97 \<le> n \<and> n \<le> 107) \<or> (109 \<le> n \<and> n \<le> 122) \<or> (65 \<le> n \<and> n \<le> 72)
         \<or> (74 \<le> n \<and> n \<le> 78) \<or> (80 \<le> n \<and> n \<le> 90) \<or> (48 \<le> n \<and> n \<le> 57))"

fun match_address :: "string \<Rightarrow> string option" where
  "match_address [] = None"
| "match_address (c # cs) =
     (if (c = CHR ''1'' \<or> c = CHR ''3'') \<and> 26 \<le> length (takeWhile is_address_char cs)
      then Some (c # take 35 (takeWhile is_address_char cs))
      else match_address cs)"

text \<open>\<^verbatim>\<open>if (username)\<close>: a user name that is absent or empty selects the caller's own storage.\<close>

definition getGaiaAddress ::
  "env \<Rightarrow> user_session \<Rightarrow> string \<Rightarrow> string option \<Rightarrow> string option \<Rightarrow> error + string" where
  "getGaiaAddress E caller appO uname zoneFileLookupURL =
     andThen
       (case uname of
          Some u \<Rightarrow>
            if u \<noteq> [] then getUserAppFileUrl E ''/'' u appO zoneFileLookupURL
            else andThen (getOrSetLocalGaiaHubConnection E caller)
                   (\<lambda>gaiaHubConfig. Inr (Some (getFullReadUrl E ''/'' gaiaHubConfig)))
        | None \<Rightarrow>
            andThen (getOrSetLocalGaiaHubConnection E caller)
              (\<lambda>gaiaHubConfig. Inr (Some (getFullReadUrl E ''/'' gaiaHubConfig))))
       (\<lambda>fileUrl.
          case fileUrl of
            None \<Rightarrow> Inl TypeError
          | Some u \<Rightarrow>
              (case match_address u of
                 None \<Rightarrow> Inl (Error ''Failed to parse gaia address'')
               | Some a \<Rightarrow> Inr a))"

text \<open>The first two steps of \<^verbatim>\<open>getFileContents\<close>: the read URL, rejected with \<^verbatim>\<open>null\<close> when falsy.\<close>

definition resolveReadUrl ::
  "env \<Rightarrow> user_session \<Rightarrow> string \<Rightarrow> string \<Rightarrow> string option \<Rightarrow> string option \<Rightarrow> error + string" where
  "resolveReadUrl E caller path appO uname zoneFileLookupURL =
     andThen
       (case uname of
          Some u \<Rightarrow>
            if u \<noteq> [] then getUserAppFileUrl E path u appO zoneFileLookupURL
            else andThen (getOrSetLocalGaiaHubConnection E caller)
                   (\<lambda>gaiaHubConfig. Inr (Some (getFullReadUrl E path gaiaHubConfig)))
        | None \<Rightarrow>
            andThen (getOrSetLocalGaiaHubConnection E caller)
              (\<lambda>gaiaHubConfig. Inr (Some (getFullReadUrl E path gaiaHubConfig))))
       (\<lambda>readUrl.
          case readUrl of
            None \<Rightarrow> Inl RejectedNull
          | Some u \<Rightarrow> if u = [] then Inl RejectedNull else Inr u)"

text \<open>
  \<^verbatim>\<open>response.text()\<close> decodes the bytes of the body as UTF-8: a leading byte-order mark
  (\<^verbatim>\<open>EF BB BF\<close>) is dropped, and every ill-formed sequence is replaced by U+FFFD, as the
  decoder of the Encoding standard does (a lead byte outside \<^verbatim>\<open>C2..F4\<close>, a continuation
  byte outside the range its lead byte allows, or the end of the input inside a sequence
  gives one replacement character, and the offending byte is read again). A string of the
  model is the UTF-8 encoding of the JavaScript string, so the decoder returns the bytes of
  the well-formed sequences as they are. \<^verbatim>\<open>response.arrayBuffer()\<close> is the bytes themselves.
\<close>

definition REPLACEMENT :: string where
  "REPLACEMENT = [CHR 0xEF, CHR 0xBF, CHR 0xBD]"

definition between :: "nat \<Rightarrow> nat \<Rightarrow> char \<Rightarrow> bool" where
  "between lo hi c = (lo \<le> of_char c \<and> (of_char c :: nat) \<le> hi)"

fun utf8_decode :: "string \<Rightarrow> string" where
  "utf8_decode [] = []"
| "utf8_decode (b # bs) =
     (if between 0 127 b then b # utf8_decode bs
      else if between 194 223 b then
        (case bs of
           [] \<Rightarrow> REPLACEMENT
         | c1 # r1 \<Rightarrow>
             if between 128 191 c1 then b # c1 # utf8_decode r1
             else REPLACEMENT @ utf8_decode bs)
      else if between 224 239 b then
        (case bs of
           [] \<Rightarrow> REPLACEMENT
         | c1 # r1 \<Rightarrow>
             if between (if b = CHR 0xE0 then 160 else 128) (if b = CHR 0xED then 159 else 191) c1
             then
               (case r1 of
                  [] \<Rightarrow> REPLACEMENT
                | c2 # r2 \<Rightarrow>
                    if between 128 191 c2 then b # c1 # c2 # utf8_decode r2
                    else REPLACEMENT @ utf8_decode r1)
             else REPLACEMENT @ utf8_decode bs)
      else if between 240 244 b then
        (case bs of
           [] \<Rightarrow> REPLACEMENT
         | c1 # r1 \<Rightarrow>
             if between (if b = CHR 0xF0 then 144 else 128) (if b = CHR 0xF4 then 143 else 191) c1
             then
               (case r1 of
                  [] \<Rightarrow> REPLACEMENT
                | c2 # r2 \<Rightarrow>
                    if between 128 191 c2 then
                      (case r2 of
                         [] \<Rightarrow> REPLACEMENT
                       | c3 # r3 \<Rightarrow>
                           if between 128 191 c3 then b # c1 # c2 # c3 # utf8_decode r3
                           else REPLACEMENT @ utf8_decode r2)
                    else REPLACEMENT @ utf8_decode r1)
             else REPLACEMENT @ utf8_decode bs)
      else REPLACEMENT @ utf8_decode bs)"

fun strip_bom :: "string \<Rightarrow> string" where
  "strip_bom (a # b # c # rest) =
     (if a = CHR 0xEF \<and> b = CHR 0xBB \<and> c = CHR 0xBF then rest else a # b # c # rest)"
| "strip_bom s = s"

definition response_text :: "string \<Rightarrow> string" where
  "response_text bytes = utf8_decode (strip_bom bytes)"

text \<open>The last step of \<^verbatim>\<open>getFileContents\<close>: the classification of the response.\<close>

definition handleResponse :: "string \<Rightarrow> bool \<Rightarrow> response \<Rightarrow> error + jsval" where
  "handleResponse path forceText resp =
     (if status resp \<noteq> 200 then
        (if status resp = 404 then Inr JNull
         else Inl (GetFileHttpError path (status resp)))
      else
        (if forceText
            \<or> (case content_type resp of
                  None \<Rightarrow> True
                | Some ct \<Rightarrow> startsWith ct ''text'' \<or> ct = ''application/json'')
         then Inr (JStr (response_text (body resp)))
         else Inr (JBuf (body resp))))"

definition getFileContents ::
  "env \<Rightarrow> user_session \<Rightarrow> string \<Rightarrow> string \<Rightarrow> string option \<Rightarrow> string option \<Rightarrow> bool
     \<Rightarrow> error + jsval" where
  "getFileContents E caller path appO uname zoneFileLookupURL forceText =
     andThen (resolveReadUrl E caller path appO uname zoneFileLookupURL)
       (\<lambda>readUrl. handleResponse path forceText (fetch E readUrl))"

section \<open>The content codec\<close>

text \<open>
  \<^verbatim>\<open>encryptContentImpl(caller, content, {publicKey})\<close>: a falsy public key is replaced by
  the one derived from the caller's app private key.
\<close>

definition encryptContentImpl ::
  "env \<Rightarrow> user_session \<Rightarrow> jsval \<Rightarrow> string option \<Rightarrow> error + string" where
  "encryptContentImpl E caller content publicKeyOpt =
     andThen
       (case publicKeyOpt of
          Some pk \<Rightarrow>
            if pk \<noteq> [] then Inr pk else getPublicKeyFromPrivate E (appPrivateKey caller)
        | None \<Rightarrow> getPublicKeyFromPrivate E (appPrivateKey caller))
       (\<lambda>pk. andThen (encryptECIES E pk content)
          (\<lambda>cipherObject. Inr (JSON_stringify E cipherObject)))"

definition NOT_ENCRYPTED_MESSAGE :: string where
  "NOT_ENCRYPTED_MESSAGE =
     ''Failed to parse encrypted content JSON. The content may not ''
     @ ''be encrypted. If using getFile, try passing { decrypt: false }.''"

text \<open>The \<^verbatim>\<open>catch\<close> of \<^verbatim>\<open>decryptContentImpl\<close>: a \<^verbatim>\<open>SyntaxError\<close> becomes the hint, any other error is thrown again.\<close>

fun catchSyntaxError :: "string \<Rightarrow> error + 'a \<Rightarrow> error + 'a" where
  "catchSyntaxError msg (Inl SyntaxError) = Inl (Error msg)"
| "catchSyntaxError msg r = r"

definition decryptContentImpl ::
  "env \<Rightarrow> user_session \<Rightarrow> jsval \<Rightarrow> string option \<Rightarrow> error + jsval" where
  "decryptContentImpl E caller content privateKeyOpt =
     (let privateKey =
            (case privateKeyOpt of
               Some k \<Rightarrow> if k \<noteq> [] then k else appPrivateKey caller
             | None \<Rightarrow> appPrivateKey caller)
      in catchSyntaxError NOT_ENCRYPTED_MESSAGE
           (case JSON_parse E content of
              None \<Rightarrow> Inl SyntaxError
            | Some cipherObject \<Rightarrow> decryptECIES E privateKey cipherObject))"

text \<open>
  Modelled from the spec: \<^verbatim>\<open>caller.decryptContent\<close>, a method of the session class, which
  is not among the sources. The spec's decrypt-and-verify row ends with "then decode": the
  codec's decode with the caller's own key, that is \<open>decryptContentImpl\<close> without options.
\<close>

definition decryptContent :: "env \<Rightarrow> user_session \<Rightarrow> jsval \<Rightarrow> error + jsval" where
  "decryptContent E caller content = decryptContentImpl E caller content None"

section \<open>Get\<close>

text \<open>The options of \<^verbatim>\<open>getFile\<close> as passed (a field that is not set is \<open>None\<close>) and after \<^verbatim>\<open>Object.assign({}, defaults, options)\<close>.\<close>

record get_options =
  decrypt :: "bool option"
  verify :: "bool option"
  username :: "string option"
  app :: "string option"
  zoneFileLookupURL :: "string option"

record get_opt =
  opt_decrypt :: bool
  opt_verify :: bool
  opt_username :: "string option"
  opt_app :: string
  opt_zoneFileLookupURL :: "string option"

definition get_defaults :: "app_config \<Rightarrow> get_opt" where
  "get_defaults appCfg =
     \<lparr>opt_decrypt = True, opt_verify = False, opt_username = None,
      opt_app = appDomain appCfg, opt_zoneFileLookupURL = None\<rparr>"

definition assign_get :: "get_opt \<Rightarrow> get_options option \<Rightarrow> get_opt" where
  "assign_get defaults options =
     (case options of
        None \<Rightarrow> defaults
      | Some os \<Rightarrow>
          \<lparr>opt_decrypt = (case decrypt os of None \<Rightarrow> opt_decrypt defaults | Some b \<Rightarrow> b),
           opt_verify = (case verify os of None \<Rightarrow> opt_verify defaults | Some b \<Rightarrow> b),
           opt_username = (case username os of None \<Rightarrow> opt_username defaults | Some u \<Rightarrow> Some u),
           opt_app = (case app os of None \<Rightarrow> opt_app defaults | Some a \<Rightarrow> a),
           opt_zoneFileLookupURL =
             (case zoneFileLookupURL os of
                None \<Rightarrow> opt_zoneFileLookupURL defaults
              | Some z \<Rightarrow> Some z)\<rparr>)"

definition NO_GAIA_ADDRESS :: "string \<Rightarrow> string" where
  "NO_GAIA_ADDRESS path = ''Failed to get gaia address for verification of: '' @ path"

definition NO_SIGNATURE :: "string \<Rightarrow> string" where
  "NO_SIGNATURE path =
     ''Failed to obtain signature for file: '' @ path @ '' -- looked in '' @ path
     @ SIGNATURE_FILE_SUFFIX"

definition ADDRESS_MISMATCH :: "string \<Rightarrow> string \<Rightarrow> string" where
  "ADDRESS_MISMATCH signerAddress gaiaAddress =
     ''Signer pubkey address ('' @ signerAddress @ '') doesn'' @ [CHR 0x27]
     @ ''t match gaia address ('' @ gaiaAddress @ '')''"

definition SIGNATURE_MISMATCH :: "string \<Rightarrow> string" where
  "SIGNATURE_MISMATCH path =
     ''Contents do not match ECDSA signature: path: '' @ path @ '', signature: '' @ path
     @ SIGNATURE_FILE_SUFFIX"

definition BAD_SIGNATURE_JSON :: "string \<Rightarrow> string" where
  "BAD_SIGNATURE_JSON path =
     ''Failed to parse signature content JSON (path: '' @ path @ SIGNATURE_FILE_SUFFIX
     @ '') The content may be corrupted.''"

text \<open>
  \<^verbatim>\<open>getFileSignedUnencrypted\<close>: \<^verbatim>\<open>Promise.all\<close> joins the two fetches and the address
  resolution, and the checks run on the three values.
\<close>

definition getFileSignedUnencrypted ::
  "env \<Rightarrow> user_session \<Rightarrow> string \<Rightarrow> get_opt \<Rightarrow> error + jsval" where
  "getFileSignedUnencrypted E caller path opt =
     andThen
       (Promise_all3 E
          (getFileContents E caller path (opt_app opt) (opt_username opt)
             (opt_zoneFileLookupURL opt) False)
          (getFileContents E caller (path @ SIGNATURE_FILE_SUFFIX) (opt_app opt)
             (opt_username opt) (opt_zoneFileLookupURL opt) True)
          (getGaiaAddress E caller (opt_app opt) (opt_username opt)
             (opt_zoneFileLookupURL opt)))
       (\<lambda>(fileContents, signatureContents, gaiaAddress).
       if \<not> truthy fileContents then Inr fileContents
       else if gaiaAddress = [] then Inl (SignatureVerificationError (NO_GAIA_ADDRESS path))
       else if \<not> truthy signatureContents \<or> \<not> is_string signatureContents
         then Inl (SignatureVerificationError (NO_SIGNATURE path))
       else
         (case JSON_parse E signatureContents of
            None \<Rightarrow> Inl (Error (BAD_SIGNATURE_JSON path))
          | Some sigObject \<Rightarrow>
              andThen (get_prop sigObject ''signature'') (\<lambda>sig.
              andThen (get_prop sigObject ''publicKey'') (\<lambda>pubKey.
              andThen (publicKeyToAddress E pubKey) (\<lambda>signerAddress.
                if gaiaAddress \<noteq> signerAddress
                  then Inl (SignatureVerificationError
                              (ADDRESS_MISMATCH signerAddress gaiaAddress))
                else
                  andThen (Buffer_from fileContents) (\<lambda>buf.
                  andThen (verifyECDSA E buf pubKey sig) (\<lambda>ok.
                    if \<not> ok then Inl (SignatureVerificationError (SIGNATURE_MISMATCH path))
                    else Inr fileContents)))))))"

definition BAD_SIGNED_JSON :: string where
  "BAD_SIGNED_JSON =
     ''Failed to parse encrypted, signed content JSON. The content may not ''
     @ ''be encrypted. If using getFile, try passing { verify: false, decrypt: false }.''"

definition NO_VERIFICATION_DATA :: "string \<Rightarrow> string" where
  "NO_VERIFICATION_DATA path = ''Failed to get signature verification data from file: '' @ path"

definition SIGNATURE_MISMATCH_IN_FILE :: "string \<Rightarrow> string" where
  "SIGNATURE_MISMATCH_IN_FILE path = ''Contents do not match ECDSA signature in file: '' @ path"

definition handleSignedEncryptedContents ::
  "env \<Rightarrow> user_session \<Rightarrow> string \<Rightarrow> jsval \<Rightarrow> string \<Rightarrow> string option \<Rightarrow> string option
     \<Rightarrow> error + jsval" where
  "handleSignedEncryptedContents E caller path storedContents appO uname zfl =
     andThen (getPublicKeyFromPrivate E (appPrivateKey caller)) (\<lambda>appPublicKey.
     andThen
       (case uname of
          Some u \<Rightarrow>
            if u \<noteq> [] then getGaiaAddress E caller appO uname zfl
            else publicKeyToAddress E (JStr appPublicKey)
        | None \<Rightarrow> publicKeyToAddress E (JStr appPublicKey)) (\<lambda>addr.
       if addr = [] then Inl (SignatureVerificationError (NO_GAIA_ADDRESS path))
       else
         (case JSON_parse E storedContents of
            None \<Rightarrow> Inl (Error BAD_SIGNED_JSON)
          | Some sigObject \<Rightarrow>
              andThen (get_prop sigObject ''signature'') (\<lambda>sig.
              andThen (get_prop sigObject ''publicKey'') (\<lambda>signerPublicKey.
              andThen (get_prop sigObject ''cipherText'') (\<lambda>cipherText.
              andThen (publicKeyToAddress E signerPublicKey) (\<lambda>signerAddress.
                if \<not> truthy signerPublicKey \<or> \<not> truthy cipherText \<or> \<not> truthy sig
                  then Inl (SignatureVerificationError (NO_VERIFICATION_DATA path))
                else if signerAddress \<noteq> addr
                  then Inl (SignatureVerificationError (ADDRESS_MISMATCH signerAddress addr))
                else
                  andThen (verifyECDSA E cipherText signerPublicKey sig) (\<lambda>ok.
                    if \<not> ok
                      then Inl (SignatureVerificationError (SIGNATURE_MISMATCH_IN_FILE path))
                    else decryptContent E caller cipherText))))))))"

definition EXPECTED_STRING :: string where
  "EXPECTED_STRING = ''Expected to get back a string for the cipherText''"

definition getFileImpl ::
  "env \<Rightarrow> user_session \<Rightarrow> string \<Rightarrow> get_options option \<Rightarrow> error + jsval" where
  "getFileImpl E caller path options =
     (case appConfig caller of
        None \<Rightarrow> Inl (InvalidStateError ''Missing AppConfig'')
      | Some appCfg \<Rightarrow>
          (let opt = assign_get (get_defaults appCfg) options
           in if opt_verify opt \<and> \<not> opt_decrypt opt
              then getFileSignedUnencrypted E caller path opt
              else
                andThen (getFileContents E caller path (opt_app opt) (opt_username opt)
                           (opt_zoneFileLookupURL opt) (opt_decrypt opt)) (\<lambda>storedContents.
                  if storedContents = JNull then Inr storedContents
                  else if opt_decrypt opt \<and> \<not> opt_verify opt then
                    (if \<not> is_string storedContents then Inl (Error EXPECTED_STRING)
                     else decryptContentImpl E caller storedContents None)
                  else if opt_decrypt opt \<and> opt_verify opt then
                    (if \<not> is_string storedContents then Inl (Error EXPECTED_STRING)
                     else handleSignedEncryptedContents E caller path storedContents
                            (opt_app opt) (opt_username opt) (opt_zoneFileLookupURL opt))
                  else if \<not> opt_verify opt \<and> \<not> opt_decrypt opt then Inr storedContents
                  else Inl (Error ''Should be unreachable.''))))"

section \<open>Put\<close>

text \<open>\<^verbatim>\<open>encrypt\<close> and \<^verbatim>\<open>sign\<close> are a boolean or a key given as a string.\<close>

datatype bool_or_string = B bool | S string

fun on :: "bool_or_string \<Rightarrow> bool" where
  "on (B b) = b"
| "on (S s) = (s \<noteq> [])"

record put_options =
  encrypt :: "bool_or_string option"
  sign :: "bool_or_string option"

record put_opt =
  opt_encrypt :: bool_or_string
  opt_sign :: bool_or_string

definition put_defaults :: put_opt where
  "put_defaults = \<lparr>opt_encrypt = B True, opt_sign = B False\<rparr>"

definition assign_put :: "put_opt \<Rightarrow> put_options option \<Rightarrow> put_opt" where
  "assign_put defaults options =
     (case options of
        None \<Rightarrow> defaults
      | Some os \<Rightarrow>
          \<lparr>opt_encrypt = (case encrypt os of None \<Rightarrow> opt_encrypt defaults | Some v \<Rightarrow> v),
           opt_sign = (case sign os of None \<Rightarrow> opt_sign defaults | Some v \<Rightarrow> v)\<rparr>)"

text \<open>
  The key resolution of \<^verbatim>\<open>putFileImpl\<close> (the two \<^verbatim>\<open>if\<close> statements after
  \<^verbatim>\<open>let privateKey = ''\<close>), with the number of calls of \<^verbatim>\<open>caller.loadUserData()\<close> it makes.
\<close>

record resolved_keys =
  privateKey :: string
  encryptionKey :: string
  loadUserData_calls :: nat

definition resolveSigningKey :: "user_session \<Rightarrow> put_opt \<Rightarrow> string \<times> nat" where
  "resolveSigningKey caller opt =
     (if on (opt_sign opt) then
        (case opt_sign opt of
           S k \<Rightarrow> (k, 0)
         | B b \<Rightarrow> (appPrivateKey caller, 1))
      else ([], 0))"

definition resolveKeys :: "env \<Rightarrow> user_session \<Rightarrow> put_opt \<Rightarrow> error + resolved_keys" where
  "resolveKeys E caller opt =
     (case resolveSigningKey caller opt of (privKey, loads) \<Rightarrow>
        if on (opt_encrypt opt) then
          (case opt_encrypt opt of
             S k \<Rightarrow> Inr \<lparr>privateKey = privKey, encryptionKey = k, loadUserData_calls = loads\<rparr>
           | B b \<Rightarrow>
               (case (if privKey = [] then (appPrivateKey caller, loads + 1)
                      else (privKey, loads)) of (privKey', loads') \<Rightarrow>
                  andThen (getPublicKeyFromPrivate E privKey') (\<lambda>pubKey.
                    Inr \<lparr>privateKey = privKey', encryptionKey = pubKey,
                         loadUserData_calls = loads'\<rparr>)))
        else Inr \<lparr>privateKey = privKey, encryptionKey = [], loadUserData_calls = loads\<rparr>)"

text \<open>One call of \<^verbatim>\<open>uploadToGaiaHub(filename, contents, hubConfig, contentType)\<close>.\<close>

record upload =
  up_filename :: string
  up_contents :: jsval
  up_hubConfig :: gaia_hub_config
  up_contentType :: string

definition signature_json :: "signature_object \<Rightarrow> jsval" where
  "signature_json so =
     JObj [(''signature'', JStr (signature so)), (''publicKey'', JStr (publicKey so))]"

definition signedCipherObject :: "signature_object \<Rightarrow> string \<Rightarrow> jsval" where
  "signedCipherObject so cipherText =
     JObj [(''signature'', JStr (signature so)), (''publicKey'', JStr (publicKey so)),
           (''cipherText'', JStr cipherText)]"

text \<open>
  \<^verbatim>\<open>putFileImpl\<close> resolves to what the hub answers; what the module decides is the uploads
  it issues, and the model returns them in the order of the source.
\<close>

definition putFileImpl ::
  "env \<Rightarrow> user_session \<Rightarrow> string \<Rightarrow> jsval \<Rightarrow> put_options option \<Rightarrow> error + upload list" where
  "putFileImpl E caller path content options =
     (let opt = assign_put put_defaults options;
          contentType = (if \<not> is_string content then ''application/octet-stream''
                         else ''text/plain'')
      in andThen (resolveKeys E caller opt) (\<lambda>keys.
           if \<not> on (opt_encrypt opt) \<and> on (opt_sign opt) then
             andThen (signECDSA E (privateKey keys) content) (\<lambda>signatureObject.
               let signatureContent = JSON_stringify E (signature_json signatureObject)
               in andThen (getOrSetLocalGaiaHubConnection E caller) (\<lambda>gaiaHubConfig.
                    Inr [\<lparr>up_filename = path, up_contents = content,
                           up_hubConfig = gaiaHubConfig, up_contentType = contentType\<rparr>,
                         \<lparr>up_filename = path @ SIGNATURE_FILE_SUFFIX,
                           up_contents = JStr signatureContent,
                           up_hubConfig = gaiaHubConfig,
                           up_contentType = ''application/json''\<rparr>]))
           else
             andThen
               (if on (opt_encrypt opt) \<and> \<not> on (opt_sign opt) then
                  andThen (encryptContentImpl E caller content (Some (encryptionKey keys)))
                    (\<lambda>cipherText. Inr (JStr cipherText, ''application/json''))
                else if on (opt_encrypt opt) \<and> on (opt_sign opt) then
                  andThen (encryptContentImpl E caller content (Some (encryptionKey keys)))
                    (\<lambda>cipherText.
                       andThen (signECDSA E (privateKey keys) (JStr cipherText))
                         (\<lambda>signatureObject.
                            Inr (JStr (JSON_stringify E
                                         (signedCipherObject signatureObject cipherText)),
                                 ''application/json'')))
                else Inr (content, contentType))
               (\<lambda>(content', contentType').
                  andThen (getOrSetLocalGaiaHubConnection E caller) (\<lambda>gaiaHubConfig.
                    Inr [\<lparr>up_filename = path, up_contents = content',
                           up_hubConfig = gaiaHubConfig,
                           up_contentType = contentType'\<rparr>]))))"

section \<open>List\<close>

text \<open>
  The callback may keep state of its own (a counter, the names collected): it takes its
  state and the entry and returns whether its result was truthy, with the new state.
  \<open>forEntries\<close> is the \<^verbatim>\<open>for\<close> loop over one page: \<open>Some i\<close> when the callback's
  result at index \<open>i\<close> was falsy, \<open>None\<close> when the page was exhausted.
\<close>

fun forEntries ::
  "('s \<Rightarrow> string \<Rightarrow> bool \<times> 's) \<Rightarrow> 's \<Rightarrow> string list \<Rightarrow> nat \<Rightarrow> nat option \<times> 's" where
  "forEntries callback st [] i = (None, st)"
| "forEntries callback st (e # es) i =
     (case callback st e of
        (rc, st') \<Rightarrow> if \<not> rc then (Some i, st') else forEntries callback st' es (Suc i))"

definition pageRequest :: "env \<Rightarrow> gaia_hub_config \<Rightarrow> string option \<Rightarrow> list_request" where
  "pageRequest E hubConfig pg =
     \<lparr>req_url = server hubConfig @ ''/list-files/'' @ address hubConfig,
      req_authorization = ''bearer '' @ token hubConfig,
      req_body = JSON_stringify E
                   (JObj [(''page'', case pg of None \<Rightarrow> JNull | Some p \<Rightarrow> JStr p)])\<rparr>"

text \<open>
  \<^verbatim>\<open>listFilesLoop\<close>, with the state of the callback and the requests made so far passed
  along; it returns the outcome of the promise, the callback's final state and every
  request that was posted.
\<close>

function listFilesLoop ::
  "env \<Rightarrow> gaia_hub_config \<Rightarrow> string option \<Rightarrow> nat \<Rightarrow> nat \<Rightarrow> ('s \<Rightarrow> string \<Rightarrow> bool \<times> 's) \<Rightarrow> 's
     \<Rightarrow> list_request list \<Rightarrow> (error + nat) \<times> 's \<times> list_request list" where
  "listFilesLoop E hubConfig pg callCount fileCount callback st reqs =
     (if callCount > 65536 then (Inl (Error ''Too many entries to list''), st, reqs)
      else
        (let req = pageRequest E hubConfig pg;
             resp = post E reqs req;
             reqs' = reqs @ [req]
         in if list_status resp \<ge> 400
            then (Inl (ListFilesHttpError (list_status resp)), st, reqs')
            else
              (case list_json resp of
                 None \<Rightarrow> (Inl SyntaxError, st, reqs')
               | Some responseJSON \<Rightarrow>
                   (case entries responseJSON of
                      None \<Rightarrow> (Inl (Error ''Bad listFiles response: no entries''), st, reqs')
                    | Some es \<Rightarrow>
                        (case forEntries callback st es 0 of
                           (Some i, st') \<Rightarrow> (Inr (fileCount + i), st', reqs')
                         | (None, st') \<Rightarrow>
                             if (case page responseJSON of None \<Rightarrow> False | Some p \<Rightarrow> p \<noteq> [])
                                \<and> length es > 0
                             then listFilesLoop E hubConfig (page responseJSON) (callCount + 1)
                                    (fileCount + length es) callback st' reqs'
                             else (Inr fileCount, st', reqs'))))))"
  by pat_completeness auto
termination
  by (relation "measure (\<lambda>(E, hubConfig, pg, callCount, rest). 65537 - callCount)") auto

definition listFilesImpl ::
  "env \<Rightarrow> user_session \<Rightarrow> ('s \<Rightarrow> string \<Rightarrow> bool \<times> 's) \<Rightarrow> 's
     \<Rightarrow> (error + nat) \<times> 's \<times> list_request list" where
  "listFilesImpl E caller callback st =
     (case getOrSetLocalGaiaHubConnection E caller of
        Inl e \<Rightarrow> (Inl e, st, [])
      | Inr gaiaHubConfig \<Rightarrow> listFilesLoop E gaiaHubConfig None 0 0 callback st [])"

section \<open>The hub and the collaborators, as the round trip assumes them\<close>

text \<open>
  The content of a file is a string or a buffer; \<open>bytes_of\<close> is what an upload of it puts
  on the wire.
\<close>

definition is_content :: "jsval \<Rightarrow> bool" where
  "is_content v = (case v of JStr s \<Rightarrow> True | JBuf b \<Rightarrow> True | _ \<Rightarrow> False)"

fun bytes_of :: "jsval \<Rightarrow> string" where
  "bytes_of (JStr s) = s"
| "bytes_of (JBuf b) = b"
| "bytes_of v = []"

text \<open>
  The hub holds an upload faithfully: a read of the file's URL is answered 200 with the
  uploaded bytes and the uploaded content type.
\<close>

definition stores :: "env \<Rightarrow> upload \<Rightarrow> bool" where
  "stores E u =
     (getFullReadUrl E (up_filename u) (up_hubConfig u) \<noteq> []
      \<and> fetch E (getFullReadUrl E (up_filename u) (up_hubConfig u))
          = \<lparr>status = 200, content_type = Some (up_contentType u),
             body = bytes_of (up_contents u)\<rparr>)"

text \<open>
  A string comes back from the hub as it went when the text decoding of its bytes returns
  it: it is well-formed and does not begin with a byte-order mark. A buffer is read as
  bytes and always comes back.
\<close>

definition text_safe :: "jsval \<Rightarrow> bool" where
  "text_safe v = (case v of JStr s \<Rightarrow> response_text s = s | _ \<Rightarrow> True)"

text \<open>
  \<^verbatim>\<open>JSON.parse\<close> inverts \<^verbatim>\<open>JSON.stringify\<close> on a value, and the text is not empty and
  comes back from the hub as it went (the text \<^verbatim>\<open>JSON.stringify\<close> writes for the objects
  of the module is ASCII).
\<close>

definition json_roundtrip :: "env \<Rightarrow> jsval \<Rightarrow> bool" where
  "json_roundtrip E v =
     (JSON_stringify E v \<noteq> [] \<and> response_text (JSON_stringify E v) = JSON_stringify E v
      \<and> JSON_parse E (JStr (JSON_stringify E v)) = Some v)"

text \<open>
  A signature object made for the message \<open>m\<close> under the public key \<open>pk\<close>: it names that
  key, its signature is not empty, and \<^verbatim>\<open>verifyECDSA\<close> accepts it on \<open>m\<close>.
\<close>

definition signature_valid :: "env \<Rightarrow> string \<Rightarrow> jsval \<Rightarrow> signature_object \<Rightarrow> bool" where
  "signature_valid E pk m so =
     (publicKey so = pk \<and> signature so \<noteq> []
      \<and> verifyECDSA E m (JStr pk) (JStr (signature so)) = Inr True)"

text \<open>
  What the round trip of a content takes from the collaborators. The caller's private key
  has a public key, and the address of that key is the one the hub connection's read URL
  carries (the trust anchor of the caller's own bucket). A signature made with the caller's
  key on the content is valid on the content's bytes. \<^verbatim>\<open>decryptECIES\<close> inverts
  \<^verbatim>\<open>encryptECIES\<close> on the content, and a signature made on the ciphertext is valid on
  it. \<^verbatim>\<open>JSON.parse\<close> inverts \<^verbatim>\<open>JSON.stringify\<close> on the objects Put serialises.
\<close>

definition collaborators_correct ::
  "env \<Rightarrow> user_session \<Rightarrow> gaia_hub_config \<Rightarrow> jsval \<Rightarrow> bool" where
  "collaborators_correct E caller hubConfig content =
     (\<exists>pk a. getPublicKeyFromPrivate E (appPrivateKey caller) = Inr pk \<and> pk \<noteq> []
        \<and> match_address (getFullReadUrl E ''/'' hubConfig) = Some a
        \<and> publicKeyToAddress E (JStr pk) = Inr a
        \<and> (\<forall>so buf. signECDSA E (appPrivateKey caller) content = Inr so
                    \<and> Buffer_from content = Inr buf \<longrightarrow>
              signature_valid E pk buf so \<and> json_roundtrip E (signature_json so))
        \<and> (\<forall>co. encryptECIES E pk content = Inr co \<longrightarrow>
              decryptECIES E (appPrivateKey caller) co = Inr content
              \<and> json_roundtrip E co
              \<and> (\<forall>so. signECDSA E (appPrivateKey caller) (JStr (JSON_stringify E co)) = Inr so \<longrightarrow>
                    signature_valid E pk (JStr (JSON_stringify E co)) so
                    \<and> json_roundtrip E (signedCipherObject so (JSON_stringify E co)))))"

section \<open>An example environment\<close>

text \<open>
  A small world on which the theorems below are instantiated: one user, one hub
  connection, and stand-ins for the collaborators. The serialiser writes a value as a
  tag followed by self-delimiting fields (lengths in unary), and the parser reads that
  format back; the ciphers and signatures are transparent.
\<close>

definition unary :: "nat \<Rightarrow> string" where
  "unary n = replicate n (CHR ''1'') @ ''0''"

fun ex_stringify :: "jsval \<Rightarrow> string" where
  "ex_stringify JUndefined = ''u''"
| "ex_stringify JNull = ''n''"
| "ex_stringify (JBool b) = (if b then ''t'' else ''f'')"
| "ex_stringify (JNum n) = (if n < 0 then ''-'' else ''+'') @ unary (nat \<bar>n\<bar>)"
| "ex_stringify (JStr s) = ''s'' @ unary (length s) @ s"
| "ex_stringify (JBuf b) = ''b'' @ unary (length b) @ b"
| "ex_stringify (JObj kvs) =
     ''o'' @ unary (length kvs)
     @ concat (map (\<lambda>(k, v). unary (length k) @ k @ ex_stringify v) kvs)"

fun read_unary :: "string \<Rightarrow> (nat \<times> string) option" where
  "read_unary [] = None"
| "read_unary (c # cs) =
     (if c = CHR ''0'' then Some (0, cs)
      else if c = CHR ''1'' then
        (case read_unary cs of None \<Rightarrow> None | Some (n, r) \<Rightarrow> Some (Suc n, r))
      else None)"

definition read_bytes :: "string \<Rightarrow> (string \<times> string) option" where
  "read_bytes s =
     (case read_unary s of
        None \<Rightarrow> None
      | Some (n, r) \<Rightarrow> if n \<le> length r then Some (take n r, drop n r) else None)"

fun read_value :: "nat \<Rightarrow> string \<Rightarrow> (jsval \<times> string) option"
  and read_fields :: "nat \<Rightarrow> nat \<Rightarrow> string \<Rightarrow> ((string \<times> jsval) list \<times> string) option" where
  "read_value 0 s = None"
| "read_value (Suc fuel) [] = None"
| "read_value (Suc fuel) (c # cs) =
     (if c = CHR ''u'' then Some (JUndefined, cs)
      else if c = CHR ''n'' then Some (JNull, cs)
      else if c = CHR ''t'' then Some (JBool True, cs)
      else if c = CHR ''f'' then Some (JBool False, cs)
      else if c = CHR ''+'' then
        (case read_unary cs of None \<Rightarrow> None | Some (n, r) \<Rightarrow> Some (JNum (int n), r))
      else if c = CHR ''-'' then
        (case read_unary cs of None \<Rightarrow> None | Some (n, r) \<Rightarrow> Some (JNum (- int n), r))
      else if c = CHR ''s'' then
        (case read_bytes cs of None \<Rightarrow> None | Some (b, r) \<Rightarrow> Some (JStr b, r))
      else if c = CHR ''b'' then
        (case read_bytes cs of None \<Rightarrow> None | Some (b, r) \<Rightarrow> Some (JBuf b, r))
      else if c = CHR ''o'' then
        (case read_unary cs of
           None \<Rightarrow> None
         | Some (n, r) \<Rightarrow>
             (case read_fields fuel n r of
                None \<Rightarrow> None
              | Some (kvs, r') \<Rightarrow> Some (JObj kvs, r')))
      else None)"
| "read_fields fuel 0 s = Some ([], s)"
| "read_fields 0 (Suc n) s = None"
| "read_fields (Suc fuel) (Suc n) s =
     (case read_bytes s of
        None \<Rightarrow> None
      | Some (k, r) \<Rightarrow>
          (case read_value fuel r of
             None \<Rightarrow> None
           | Some (v, r') \<Rightarrow>
               (case read_fields fuel n r' of
                  None \<Rightarrow> None
                | Some (kvs, r'') \<Rightarrow> Some ((k, v) # kvs, r''))))"

fun ex_parse :: "jsval \<Rightarrow> jsval option" where
  "ex_parse (JStr s) =
     (case read_value (Suc (length s)) s of
        Some (v, []) \<Rightarrow> Some v
      | _ \<Rightarrow> None)"
| "ex_parse v = None"

definition ex_publicKey :: "string \<Rightarrow> string" where
  "ex_publicKey sk = ''pub-'' @ sk"

definition ex_encrypt :: "string \<Rightarrow> jsval \<Rightarrow> error + jsval" where
  "ex_encrypt pk content = Inr (JObj [(''to'', JStr pk), (''data'', content)])"

definition ex_decrypt :: "string \<Rightarrow> jsval \<Rightarrow> error + jsval" where
  "ex_decrypt sk cipherObject =
     andThen (get_prop cipherObject ''to'') (\<lambda>pk.
       if pk \<noteq> JStr (ex_publicKey sk) then Inl (Error ''wrong key'')
       else get_prop cipherObject ''data'')"

definition ex_sign :: "string \<Rightarrow> jsval \<Rightarrow> error + signature_object" where
  "ex_sign sk content =
     Inr \<lparr>signature = ''signed-'' @ sk @ '':'' @ bytes_of content, publicKey = ex_publicKey sk\<rparr>"

definition ex_verify :: "jsval \<Rightarrow> jsval \<Rightarrow> jsval \<Rightarrow> error + bool" where
  "ex_verify content pk sg =
     (case pk of
        JStr p \<Rightarrow> Inr (take 4 p = ''pub-''
                        \<and> sg = JStr (''signed-'' @ drop 4 p @ '':'' @ bytes_of content))
      | _ \<Rightarrow> Inl TypeError)"

definition ex_address :: string where
  "ex_address = ''1BvBMSEYstWetqTFn5Au4m4GFg7xJaNVN2''"

definition ex_other_address :: string where
  "ex_other_address = ''3J98t1WpEZ73CNmQviecrnyiWrnqRhWNXy''"

definition ex_hubConfig :: gaia_hub_config where
  "ex_hubConfig = \<lparr>server = ''https://hub.example'', address = ex_address, token = ''token''\<rparr>"

definition ex_readUrl :: "string \<Rightarrow> gaia_hub_config \<Rightarrow> string" where
  "ex_readUrl path hubConfig = ''https://hub.example/read/'' @ address hubConfig @ ''/'' @ path"

text \<open>A hub that holds nothing: every read is answered 404, every listing is empty.\<close>

definition ex_env :: env where
  "ex_env =
     \<lparr>fetch = (\<lambda>url. \<lparr>status = 404, content_type = None, body = []\<rparr>),
      post = (\<lambda>reqs req. \<lparr>list_status = 200,
                             list_json = Some \<lparr>entries = Some [], page = None\<rparr>\<rparr>),
      lookupProfile = (\<lambda>name zfl. Inr \<lparr>apps = Some Map.empty\<rparr>),
      getOrSetLocalGaiaHubConnection = (\<lambda>caller. Inr ex_hubConfig),
      getFullReadUrl = ex_readUrl,
      encryptECIES = ex_encrypt,
      decryptECIES = ex_decrypt,
      signECDSA = ex_sign,
      verifyECDSA = ex_verify,
      JSON_stringify = ex_stringify,
      JSON_parse = ex_parse,
      bufferFromHex = (\<lambda>s. s),
      ecPublicKeyHex = (\<lambda>sk. Inr (ex_publicKey sk)),
      hash160 = (\<lambda>b. b),
      toBase58Check = (\<lambda>h version. if h = ex_publicKey ''a1'' then ex_address
                                     else ex_other_address),
      schedule = (\<lambda>es. 0)\<rparr>"

definition ex_caller :: user_session where
  "ex_caller = \<lparr>appConfig = Some \<lparr>appDomain = ''https://app.example''\<rparr>, appPrivateKey = ''a1''\<rparr>"

text \<open>The hub after a list of uploads: the last upload to a URL is what a read of it returns.\<close>

fun stored :: "env \<Rightarrow> upload list \<Rightarrow> string \<Rightarrow> response" where
  "stored E [] url = \<lparr>status = 404, content_type = None, body = []\<rparr>"
| "stored E (u # us) url =
     (if url = getFullReadUrl E (up_filename u) (up_hubConfig u)
         \<and> \<not> list_ex (\<lambda>u'. getFullReadUrl E (up_filename u') (up_hubConfig u') = url) us
      then \<lparr>status = 200, content_type = Some (up_contentType u),
            body = bytes_of (up_contents u)\<rparr>
      else stored E us url)"

text \<open>
  A hub whose listing has two pages of two entries and a third page behind them, a hub
  that answers every listing request with the same page and cursor, a callback that
  counts its invocations and returns \<^verbatim>\<open>false\<close> on the third, and one that always
  returns \<^verbatim>\<open>true\<close>.
\<close>

definition ex_two_pages :: "list_request list \<Rightarrow> list_request \<Rightarrow> list_response" where
  "ex_two_pages reqs req =
     (if length reqs = 0 then
        \<lparr>list_status = 200,
         list_json = Some \<lparr>entries = Some [''a'', ''b''], page = Some ''page-2''\<rparr>\<rparr>
      else if length reqs = 1 then
        \<lparr>list_status = 200,
         list_json = Some \<lparr>entries = Some [''c'', ''d''], page = Some ''page-3''\<rparr>\<rparr>
      else
        \<lparr>list_status = 200, list_json = Some \<lparr>entries = Some [''e''], page = None\<rparr>\<rparr>)"

definition ex_same_page :: "list_request list \<Rightarrow> list_request \<Rightarrow> list_response" where
  "ex_same_page reqs req =
     \<lparr>list_status = 200, list_json = Some \<lparr>entries = Some [''a''], page = Some ''again''\<rparr>\<rparr>"

definition ex_stop_at_third :: "nat \<Rightarrow> string \<Rightarrow> bool \<times> nat" where
  "ex_stop_at_third calls name = (Suc calls \<noteq> 3, Suc calls)"

definition ex_continue :: "nat \<Rightarrow> string \<Rightarrow> bool \<times> nat" where
  "ex_continue calls name = (True, Suc calls)"

text \<open>The string \<^verbatim>\<open>hello\<close> behind a byte-order mark (U+FEFF, the bytes \<^verbatim>\<open>EF BB BF\<close>).\<close>

definition ex_bom_hello :: jsval where
  "ex_bom_hello = JStr ([CHR 0xEF, CHR 0xBB, CHR 0xBF] @ ''hello'')"

text \<open>A hub on which \<^verbatim>\<open>notes.txt\<close> is absent and a read of \<^verbatim>\<open>notes.txt.sig\<close> fails.\<close>

definition ex_sig_unavailable :: "string \<Rightarrow> response" where
  "ex_sig_unavailable url =
     (if url = ex_readUrl ''notes.txt.sig'' ex_hubConfig
      then \<lparr>status = 500, content_type = None, body = []\<rparr>
      else \<lparr>status = 404, content_type = None, body = []\<rparr>)"

text \<open>
  The uploads of a Put of \<^verbatim>\<open>notes.txt\<close> by the example caller, and the example world
  whose hub holds them.
\<close>

definition ex_uploads :: "jsval \<Rightarrow> bool \<Rightarrow> bool \<Rightarrow> upload list" where
  "ex_uploads content enc sg =
     (case putFileImpl ex_env ex_caller ''notes.txt'' content
             (Some \<lparr>encrypt = Some (B enc), sign = Some (B sg)\<rparr>) of
        Inl e \<Rightarrow> []
      | Inr ups \<Rightarrow> ups)"

definition ex_env_after :: "jsval \<Rightarrow> bool \<Rightarrow> bool \<Rightarrow> env" where
  "ex_env_after content enc sg = ex_env\<lparr>fetch := stored ex_env (ex_uploads content enc sg)\<rparr>"

text \<open>
  The cipher object and the signature object of the example Put of \<^verbatim>\<open>hello\<close>; a hub on
  which the \<^verbatim>\<open>cipherText\<close> of the stored envelope was changed (one byte of the
  plaintext inside it) while the signature was kept; and a hub on which \<^verbatim>\<open>notes.txt\<close>
  is an empty text file without a signature file.
\<close>

definition ex_cipherObject :: jsval where
  "ex_cipherObject = JObj [(''to'', JStr (ex_publicKey ''a1'')), (''data'', JStr ''hello'')]"

definition ex_signatureObject :: signature_object where
  "ex_signatureObject =
     \<lparr>signature = ''signed-a1:'' @ ex_stringify ex_cipherObject, publicKey = ex_publicKey ''a1''\<rparr>"

definition ex_tampered :: "string \<Rightarrow> response" where
  "ex_tampered url =
     \<lparr>status = 200, content_type = Some ''application/json'',
      body = ex_stringify (signedCipherObject ex_signatureObject
                            (ex_stringify (JObj [(''to'', JStr (ex_publicKey ''a1'')),
                                                 (''data'', JStr ''jello'')])))\<rparr>"

definition ex_empty_file :: "string \<Rightarrow> response" where
  "ex_empty_file url =
     (if url = ex_readUrl ''notes.txt'' ex_hubConfig
      then \<lparr>status = 200, content_type = Some ''text/plain'', body = []\<rparr>
      else \<lparr>status = 404, content_type = None, body = []\<rparr>)"

section \<open>Basic facts\<close>

lemma andThen_simps [simp]:
  "andThen (Inl e) f = Inl e"
  "andThen (Inr x) f = f x"
  by (simp_all add: andThen_def)

declare listFilesLoop.simps [simp del]

lemma andThen_eq_Inr: "andThen p f = Inr y \<longleftrightarrow> (\<exists>x. p = Inr x \<and> f x = Inr y)"
  by (cases p) simp_all

lemma rejection_simps [simp]:
  "rejection (Inl e) = [e]"
  "rejection (Inr x) = []"
  by (simp_all add: rejection_def)

lemma first_rejected_single [simp]: "first_rejected E [e] = e"
  by (simp add: first_rejected_def)

lemma first_rejected_member: "es \<noteq> [] \<Longrightarrow> first_rejected E es \<in> set es"
  by (simp add: first_rejected_def)

lemma Promise_all3_fulfilled [simp]: "Promise_all3 E (Inr a) (Inr b) (Inr c) = Inr (a, b, c)"
  by (simp add: Promise_all3_def)

lemma Promise_all3_rejected:
  "rejection p1 @ rejection p2 @ rejection p3 \<noteq> [] \<Longrightarrow>
     Promise_all3 E p1 p2 p3 = Inl (first_rejected E (rejection p1 @ rejection p2 @ rejection p3))"
  by (cases p1; cases p2; cases p3) (simp_all add: Promise_all3_def)

lemma response_text_empty [simp]: "response_text [] = []"
  by (simp add: response_text_def)

lemmas text_eval = response_text_def between_def REPLACEMENT_def

lemma match_address_nonempty: "match_address s = Some a \<Longrightarrow> a \<noteq> []"
  by (induction s) (auto split: if_splits)

lemma publicKeyToAddress_string:
  "\<exists>a. publicKeyToAddress E (JStr s) = Inr a"
  by (simp add: publicKeyToAddress_def)

lemma ex_env_fields [simp]:
  "fetch ex_env = (\<lambda>url. \<lparr>status = 404, content_type = None, body = []\<rparr>)"
  "lookupProfile ex_env = (\<lambda>name zfl. Inr \<lparr>apps = Some Map.empty\<rparr>)"
  "getOrSetLocalGaiaHubConnection ex_env = (\<lambda>caller. Inr ex_hubConfig)"
  "getFullReadUrl ex_env = ex_readUrl"
  "encryptECIES ex_env = ex_encrypt"
  "decryptECIES ex_env = ex_decrypt"
  "signECDSA ex_env = ex_sign"
  "verifyECDSA ex_env = ex_verify"
  "JSON_stringify ex_env = ex_stringify"
  "JSON_parse ex_env = ex_parse"
  "bufferFromHex ex_env = (\<lambda>s. s)"
  "ecPublicKeyHex ex_env = (\<lambda>sk. Inr (ex_publicKey sk))"
  "hash160 ex_env = (\<lambda>b. b)"
  "toBase58Check ex_env
     = (\<lambda>h version. if h = ex_publicKey ''a1'' then ex_address else ex_other_address)"
  "schedule ex_env = (\<lambda>es. 0)"
  by (simp_all add: ex_env_def)

lemma ex_caller_fields [simp]:
  "appConfig ex_caller = Some \<lparr>appDomain = ''https://app.example''\<rparr>"
  "appPrivateKey ex_caller = ''a1''"
  by (simp_all add: ex_caller_def)

lemma ex_match_address [simp]:
  "match_address (ex_readUrl path ex_hubConfig) = Some ex_address"
  by (simp add: ex_readUrl_def ex_hubConfig_def ex_address_def is_address_char_def)

lemma ex_readUrl_nonempty [simp]: "ex_readUrl path hubConfig \<noteq> []"
  by (simp add: ex_readUrl_def)

lemma ex_readUrl_inject [simp]:
  "ex_readUrl p hubConfig = ex_readUrl q hubConfig \<longleftrightarrow> p = q"
  by (simp add: ex_readUrl_def)

lemma startsWith_iff: "startsWith s p \<longleftrightarrow> (\<exists>rest. s = p @ rest)"
proof
  assume "startsWith s p"
  then have "s = p @ drop (length p) s"
    unfolding startsWith_def by (metis append_take_drop_id)
  then show "\<exists>rest. s = p @ rest" ..
next
  assume "\<exists>rest. s = p @ rest"
  then show "startsWith s p" by (auto simp: startsWith_def)
qed

lemma getFileContents_resolved:
  "resolveReadUrl E caller path appO uname zfl = Inr url \<Longrightarrow>
     getFileContents E caller path appO uname zfl forceText
       = handleResponse path forceText (fetch E url)"
  by (simp add: getFileContents_def)

lemma getFileContents_unresolved:
  "resolveReadUrl E caller path appO uname zfl = Inl e \<Longrightarrow>
     getFileContents E caller path appO uname zfl forceText = Inl e"
  by (simp add: getFileContents_def)

lemma own_storage_url:
  "getOrSetLocalGaiaHubConnection E caller = Inr hubConfig \<Longrightarrow>
   getFullReadUrl E path hubConfig \<noteq> [] \<Longrightarrow>
     resolveReadUrl E caller path appO None zfl = Inr (getFullReadUrl E path hubConfig)"
  by (simp add: resolveReadUrl_def)

lemma own_storage_address:
  "getOrSetLocalGaiaHubConnection E caller = Inr hubConfig \<Longrightarrow>
   match_address (getFullReadUrl E ''/'' hubConfig) = Some a \<Longrightarrow>
     getGaiaAddress E caller appO None zfl = Inr a"
  by (simp add: getGaiaAddress_def)

lemma fetch_stored:
  assumes "getOrSetLocalGaiaHubConnection E caller = Inr hubConfig"
    and "stores E u" and "up_hubConfig u = hubConfig" and "up_filename u = p"
  shows "getFileContents E caller p appO None zfl forceText
           = handleResponse p forceText
               \<lparr>status = 200, content_type = Some (up_contentType u),
                body = bytes_of (up_contents u)\<rparr>"
  using assms by (simp add: stores_def getFileContents_def own_storage_url)

lemma Buffer_from_content: "is_content content \<Longrightarrow> Buffer_from content = Inr (JBuf (bytes_of content))"
  by (auto simp: is_content_def split: jsval.splits)

lemma get_prop_signature_json [simp]:
  "get_prop (signature_json so) ''signature'' = Inr (JStr (signature so))"
  "get_prop (signature_json so) ''publicKey'' = Inr (JStr (publicKey so))"
  by (simp_all add: signature_json_def)

lemma get_prop_signedCipherObject [simp]:
  "get_prop (signedCipherObject so ct) ''signature'' = Inr (JStr (signature so))"
  "get_prop (signedCipherObject so ct) ''publicKey'' = Inr (JStr (publicKey so))"
  "get_prop (signedCipherObject so ct) ''cipherText'' = Inr (JStr ct)"
  by (simp_all add: signedCipherObject_def)

lemma ex_env_after_fields [simp]:
  "fetch (ex_env_after content enc sg) = stored ex_env (ex_uploads content enc sg)"
  "getOrSetLocalGaiaHubConnection (ex_env_after content enc sg) = (\<lambda>caller. Inr ex_hubConfig)"
  "getFullReadUrl (ex_env_after content enc sg) = ex_readUrl"
  "encryptECIES (ex_env_after content enc sg) = ex_encrypt"
  "decryptECIES (ex_env_after content enc sg) = ex_decrypt"
  "signECDSA (ex_env_after content enc sg) = ex_sign"
  "verifyECDSA (ex_env_after content enc sg) = ex_verify"
  "JSON_stringify (ex_env_after content enc sg) = ex_stringify"
  "JSON_parse (ex_env_after content enc sg) = ex_parse"
  "getPublicKeyFromPrivate (ex_env_after content enc sg) = (\<lambda>sk. Inr (ex_publicKey sk))"
  "publicKeyToAddress (ex_env_after content enc sg) (JStr (ex_publicKey ''a1'')) = Inr ex_address"
  by (simp_all add: ex_env_after_def getPublicKeyFromPrivate_def publicKeyToAddress_def fun_eq_iff)

lemma getUserAppFileUrl_no_bucket:
  assumes "lookupProfile E u zfl = Inr prof"
    and "apps prof = None \<or> (\<exists>as. apps prof = Some as \<and> (as appO = None \<or> as appO = Some []))"
  shows "getUserAppFileUrl E path u appO zfl = Inr None"
  using assms by (auto simp: getUserAppFileUrl_def)

section \<open>The pagination loop\<close>

lemma forEntries_continue:
  "(\<And>s e. fst (callback s e)) \<Longrightarrow> fst (forEntries callback st es i) = None"
proof (induction es arbitrary: st i)
  case Nil
  show ?case by simp
next
  case (Cons e es)
  obtain rc st' where cb: "callback st e = (rc, st')" by (cases "callback st e")
  with Cons.prems [of st e] have rc by simp
  with cb Cons.IH [OF Cons.prems] show ?case by simp
qed

lemma listFilesLoop_guard:
  "65536 < callCount \<Longrightarrow>
     listFilesLoop E hubConfig pg callCount fileCount callback st reqs
       = (Inl (Error ''Too many entries to list''), st, reqs)"
  by (subst listFilesLoop.simps) simp

text \<open>
  When the callback's result is falsy at index \<open>i\<close> of a page, the loop resolves to
  \<open>fileCount + i\<close>: the entries of the earlier pages and the \<open>i\<close> entries of this page
  before the one the callback stopped on.
\<close>

lemma listFilesLoop_stop:
  assumes "callCount \<le> 65536"
    and "list_status (post E reqs (pageRequest E hubConfig pg)) < 400"
    and "list_json (post E reqs (pageRequest E hubConfig pg)) = Some responseJSON"
    and "entries responseJSON = Some es"
    and "forEntries callback st es 0 = (Some i, st')"
  shows "listFilesLoop E hubConfig pg callCount fileCount callback st reqs
           = (Inr (fileCount + i), st', reqs @ [pageRequest E hubConfig pg])"
  using assms by (subst listFilesLoop.simps) (simp add: Let_def)

lemma listFilesLoop_endless:
  assumes hub: "\<And>reqs req. post E reqs req = r"
    and ok: "list_status r < 400"
    and json: "list_json r = Some pj"
    and es: "entries pj = Some es" "es \<noteq> []"
    and cur: "page pj = Some c" "c \<noteq> []"
    and cb: "\<And>s e. fst (callback s e)"
  shows "n \<le> 65537 \<Longrightarrow>
     fst (listFilesLoop E hubConfig pg (65537 - n) fileCount callback st reqs)
       = Inl (Error ''Too many entries to list'')
     \<and> length (snd (snd (listFilesLoop E hubConfig pg (65537 - n) fileCount callback st reqs)))
       = length reqs + n"
proof (induction n arbitrary: pg fileCount st reqs)
  case 0
  show ?case by (simp add: listFilesLoop_guard)
next
  case (Suc n)
  then have le: "n \<le> 65537" by simp
  have cc: "\<not> 65536 < 65537 - Suc n" by simp
  have nxt: "65537 - Suc n + 1 = 65537 - n" using Suc.prems by simp
  obtain st' where fe: "forEntries callback st es 0 = (None, st')"
    using forEntries_continue [of callback st es 0, OF cb]
    by (cases "forEntries callback st es 0") simp
  have step: "listFilesLoop E hubConfig pg (65537 - Suc n) fileCount callback st reqs
      = listFilesLoop E hubConfig (Some c) (65537 - n) (fileCount + length es) callback st'
          (reqs @ [pageRequest E hubConfig pg])"
    apply (subst listFilesLoop.simps)
    using cc ok es cur fe nxt by (simp add: hub json Let_def)
  show ?case
    unfolding step
    using Suc.IH [OF le, of "Some c" "fileCount + length es" st'
                    "reqs @ [pageRequest E hubConfig pg]"]
    by simp
qed

text \<open>
  C5. Two pages of two entries each, a callback that returns \<^verbatim>\<open>false\<close> on its third
  invocation: the callback is invoked three times and only two requests are posted, but
  the promise resolves to 2, the number of entries before the one the callback stopped
  on, and not to 3.
\<close>

theorem listFiles_stop_at_third_entry:
  "listFilesImpl (ex_env\<lparr>post := ex_two_pages\<rparr>) ex_caller ex_stop_at_third 0
     = (Inr 2, 3,
        [pageRequest ex_env ex_hubConfig None, pageRequest ex_env ex_hubConfig (Some ''page-2'')])"
proof -
  let ?E = "ex_env\<lparr>post := ex_two_pages\<rparr>"
  have p: "pageRequest ?E = pageRequest ex_env"
    by (simp add: pageRequest_def fun_eq_iff)
  have one: "listFilesLoop ?E ex_hubConfig None 0 0 ex_stop_at_third 0 []
      = listFilesLoop ?E ex_hubConfig (Some ''page-2'') (Suc 0) 2 ex_stop_at_third 2
          [pageRequest ex_env ex_hubConfig None]"
    by (subst listFilesLoop.simps)
       (simp add: p ex_two_pages_def ex_stop_at_third_def Let_def numeral_2_eq_2 numeral_3_eq_3)
  have two: "listFilesLoop ?E ex_hubConfig (Some ''page-2'') (Suc 0) 2 ex_stop_at_third 2
          [pageRequest ex_env ex_hubConfig None]
      = (Inr 2, 3, [pageRequest ex_env ex_hubConfig None,
                    pageRequest ex_env ex_hubConfig (Some ''page-2'')])"
    by (subst listFilesLoop.simps)
       (simp add: p ex_two_pages_def ex_stop_at_third_def Let_def numeral_2_eq_2 numeral_3_eq_3)
  show ?thesis
    by (simp add: listFilesImpl_def one two)
qed

text \<open>
  C6. Iterations are counted by the loop's own counter \<open>callCount\<close>, which is 0 in the
  first call and grows by one with every page. A call whose counter exceeds 65536 raises
  the error whatever the cursor, the hub and the callback are. Against a hub that answers
  every request with the same non-empty page and the same cursor, with a callback that
  never stops, the listing ends in that error: one request is posted for each counter
  value from 0 to 65536, and the call with counter 65537 raises.
\<close>

theorem listFiles_too_many_pages:
  "(65536 < callCount \<longrightarrow>
      listFilesLoop E hubConfig pg callCount fileCount callback st reqs
        = (Inl (Error ''Too many entries to list''), st, reqs))
   \<and> (getOrSetLocalGaiaHubConnection E caller = Inr hubConfig
        \<and> (\<forall>rs req. post E rs req = r)
        \<and> list_status r < 400 \<and> list_json r = Some pj
        \<and> entries pj = Some es \<and> es \<noteq> [] \<and> page pj = Some c \<and> c \<noteq> []
        \<and> (\<forall>s e. fst (callback s e)) \<longrightarrow>
      fst (listFilesImpl E caller callback st) = Inl (Error ''Too many entries to list'')
      \<and> length (snd (snd (listFilesImpl E caller callback st))) = 65537)"
proof (intro conjI impI)
  assume "65536 < callCount"
  then show "listFilesLoop E hubConfig pg callCount fileCount callback st reqs
        = (Inl (Error ''Too many entries to list''), st, reqs)"
    by (rule listFilesLoop_guard)
next
  assume a: "getOrSetLocalGaiaHubConnection E caller = Inr hubConfig
        \<and> (\<forall>rs req. post E rs req = r)
        \<and> list_status r < 400 \<and> list_json r = Some pj
        \<and> entries pj = Some es \<and> es \<noteq> [] \<and> page pj = Some c \<and> c \<noteq> []
        \<and> (\<forall>s e. fst (callback s e))"
  then have impl: "listFilesImpl E caller callback st
      = listFilesLoop E hubConfig None (65537 - 65537) 0 callback st []"
    by (simp add: listFilesImpl_def)
  have run: "fst (listFilesLoop E hubConfig None (65537 - 65537) 0 callback st [])
       = Inl (Error ''Too many entries to list'')
     \<and> length (snd (snd (listFilesLoop E hubConfig None (65537 - 65537) 0 callback st [])))
       = length ([] :: list_request list) + 65537"
    using a by (intro listFilesLoop_endless [where r = r and pj = pj and es = es and c = c]) simp_all
  from run show "fst (listFilesImpl E caller callback st) = Inl (Error ''Too many entries to list'')"
    unfolding impl by simp
  from run show "length (snd (snd (listFilesImpl E caller callback st))) = 65537"
    unfolding impl by simp
qed

theorem listFiles_too_many_pages_witness:
  "listFilesLoop ex_env ex_hubConfig (Some ''again'') 65537 0 ex_continue 0 []
     = (Inl (Error ''Too many entries to list''), 0, [])
   \<and> fst (listFilesImpl (ex_env\<lparr>post := ex_same_page\<rparr>) ex_caller ex_continue 0)
       = Inl (Error ''Too many entries to list'')
   \<and> length (snd (snd (listFilesImpl (ex_env\<lparr>post := ex_same_page\<rparr>) ex_caller ex_continue 0)))
       = 65537"
proof -
  have guard: "listFilesLoop ex_env ex_hubConfig (Some ''again'') 65537 0 ex_continue 0 []
     = (Inl (Error ''Too many entries to list''), 0, [])"
    using listFiles_too_many_pages
      [of 65537 ex_env ex_hubConfig "Some ''again''" 0 ex_continue 0 "[]"]
    by simp
  have hub: "getOrSetLocalGaiaHubConnection (ex_env\<lparr>post := ex_same_page\<rparr>) ex_caller
               = Inr ex_hubConfig
        \<and> (\<forall>rs req. post (ex_env\<lparr>post := ex_same_page\<rparr>) rs req
              = \<lparr>list_status = 200,
                  list_json = Some \<lparr>entries = Some [''a''], page = Some ''again''\<rparr>\<rparr>)
        \<and> (\<forall>s e. fst (ex_continue s e))"
    by (simp add: ex_same_page_def ex_continue_def)
  have run: "fst (listFilesImpl (ex_env\<lparr>post := ex_same_page\<rparr>) ex_caller ex_continue 0)
       = Inl (Error ''Too many entries to list'')
   \<and> length (snd (snd (listFilesImpl (ex_env\<lparr>post := ex_same_page\<rparr>) ex_caller ex_continue 0)))
       = 65537"
    using hub listFiles_too_many_pages
      [of 0 "ex_env\<lparr>post := ex_same_page\<rparr>" ex_hubConfig None 0 ex_continue 0 "[]" ex_caller
          "\<lparr>list_status = 200,
            list_json = Some \<lparr>entries = Some [''a''], page = Some ''again''\<rparr>\<rparr>"
          "\<lparr>entries = Some [''a''], page = Some ''again''\<rparr>" "[''a'']" "''again''"]
    by simp
  from guard run show ?thesis by simp
qed

section \<open>The content fetch\<close>

text \<open>
  C8 (as amended). Once the read URL is resolved, a 404 yields \<^verbatim>\<open>null\<close>; every other
  status that is not 200 is rejected with the error that carries the status, the other
  2xx statuses included; on 200 the body is text exactly when \<^verbatim>\<open>forceText\<close> is set or
  the \<^verbatim>\<open>Content-Type\<close> is absent, starts with \<^verbatim>\<open>text\<close> or is
  \<^verbatim>\<open>application/json\<close> (the string that \<^verbatim>\<open>response.text()\<close> decodes from the
  bytes), and binary otherwise (the bytes).
\<close>

theorem fetch_classification:
  "resolveReadUrl E caller path appO uname zfl = Inr url \<longrightarrow>
     (status (fetch E url) = 404 \<longrightarrow>
        getFileContents E caller path appO uname zfl forceText = Inr JNull)
   \<and> (status (fetch E url) \<noteq> 404 \<and> status (fetch E url) \<noteq> 200 \<longrightarrow>
        getFileContents E caller path appO uname zfl forceText
          = Inl (GetFileHttpError path (status (fetch E url))))
   \<and> (status (fetch E url) = 200 \<longrightarrow>
        getFileContents E caller path appO uname zfl forceText
          = Inr (if forceText \<or> content_type (fetch E url) = None
                    \<or> (\<exists>rest. content_type (fetch E url) = Some (''text'' @ rest))
                    \<or> content_type (fetch E url) = Some ''application/json''
                 then JStr (response_text (body (fetch E url)))
                 else JBuf (body (fetch E url))))"
  by (auto simp: getFileContents_resolved handleResponse_def startsWith_iff split: option.splits)

text \<open>The claim counts the 2xx statuses other than 200 as successes; a 201 is rejected.\<close>

theorem fetch_201_counterexample:
  "getFileContents
     (ex_env\<lparr>fetch := (\<lambda>url. \<lparr>status = 201, content_type = Some ''text/plain'', body = ''x''\<rparr>)\<rparr>)
     ex_caller ''notes.txt'' ''https://app.example'' None None False
   = Inl (GetFileHttpError ''notes.txt'' 201)"
  by (simp add: getFileContents_def own_storage_url handleResponse_def)

theorem fetch_classification_witness:
  "getFileContents
     (ex_env\<lparr>fetch := (\<lambda>url. \<lparr>status = 200, content_type = Some ''text/html'', body = ''x''\<rparr>)\<rparr>)
     ex_caller ''notes.txt'' ''https://app.example'' None None False
   = Inr (JStr ''x'')
   \<and> getFileContents
     (ex_env\<lparr>fetch := (\<lambda>url. \<lparr>status = 200, content_type = Some ''image/png'', body = ''x''\<rparr>)\<rparr>)
     ex_caller ''notes.txt'' ''https://app.example'' None None False
   = Inr (JBuf ''x'')
   \<and> getFileContents ex_env ex_caller ''notes.txt'' ''https://app.example'' None None False
   = Inr JNull
   \<and> getFileContents
     (ex_env\<lparr>fetch := (\<lambda>url. \<lparr>status = 503, content_type = None, body = []\<rparr>)\<rparr>)
     ex_caller ''notes.txt'' ''https://app.example'' None None True
   = Inl (GetFileHttpError ''notes.txt'' 503)"
proof -
  have r: "resolveReadUrl (ex_env\<lparr>fetch := f\<rparr>) ex_caller ''notes.txt'' ''https://app.example''
      None None = Inr (ex_readUrl ''notes.txt'' ex_hubConfig)" for f
    by (simp add: own_storage_url)
  have r0: "resolveReadUrl ex_env ex_caller ''notes.txt'' ''https://app.example'' None None
     = Inr (ex_readUrl ''notes.txt'' ex_hubConfig)"
    by (simp add: own_storage_url)
  show ?thesis
    using
      fetch_classification [of "ex_env\<lparr>fetch := (\<lambda>url. \<lparr>status = 200, content_type = Some ''text/html'', body = ''x''\<rparr>)\<rparr>"
         ex_caller "''notes.txt''" "''https://app.example''" None None "ex_readUrl ''notes.txt'' ex_hubConfig" False]
      fetch_classification [of "ex_env\<lparr>fetch := (\<lambda>url. \<lparr>status = 200, content_type = Some ''image/png'', body = ''x''\<rparr>)\<rparr>"
         ex_caller "''notes.txt''" "''https://app.example''" None None "ex_readUrl ''notes.txt'' ex_hubConfig" False]
      fetch_classification [of ex_env
         ex_caller "''notes.txt''" "''https://app.example''" None None "ex_readUrl ''notes.txt'' ex_hubConfig" False]
      fetch_classification [of "ex_env\<lparr>fetch := (\<lambda>url. \<lparr>status = 503, content_type = None, body = []\<rparr>)\<rparr>"
         ex_caller "''notes.txt''" "''https://app.example''" None None "ex_readUrl ''notes.txt'' ex_hubConfig" True]
    by (simp add: r r0 text_eval)
qed

text \<open>
  C7 (as amended). When no read URL resolves (the other user's profile has no \<^verbatim>\<open>apps\<close>,
  or no bucket, or an empty one, for the application; or the caller's own read URL is
  empty) the fetch is rejected, with \<^verbatim>\<open>null\<close> as the reason of the rejection, and so is
  Get in each mode that fetches a single file. In the mode that verifies without
  decrypting, the two fetches are rejected with \<^verbatim>\<open>null\<close> and the trust-anchor resolution,
  which runs beside them, throws a \<^verbatim>\<open>TypeError\<close> on the missing URL: Get is rejected with
  \<^verbatim>\<open>null\<close> or with that \<^verbatim>\<open>TypeError\<close>, whichever rejection is first. In no mode does
  Get resolve to \<^verbatim>\<open>null\<close>, as it does for an absent file.
\<close>

theorem no_read_url_is_rejected:
  "(u \<noteq> [] \<and> lookupProfile E u zfl = Inr prof
      \<and> (apps prof = None \<or> (\<exists>as. apps prof = Some as \<and> (as appO = None \<or> as appO = Some []))) \<longrightarrow>
      getFileContents E caller path appO (Some u) zfl forceText = Inl RejectedNull
      \<and> (appConfig caller = Some ac \<and> \<not> (v \<and> \<not> d) \<longrightarrow>
           getFileImpl E caller path
             (Some \<lparr>decrypt = Some d, verify = Some v, username = Some u, app = Some appO,
                    zoneFileLookupURL = zfl\<rparr>) = Inl RejectedNull)
      \<and> (appConfig caller = Some ac \<longrightarrow>
           getFileImpl E caller path
             (Some \<lparr>decrypt = Some False, verify = Some True, username = Some u,
                    app = Some appO, zoneFileLookupURL = zfl\<rparr>) = Inl RejectedNull
           \<or> getFileImpl E caller path
             (Some \<lparr>decrypt = Some False, verify = Some True, username = Some u,
                    app = Some appO, zoneFileLookupURL = zfl\<rparr>) = Inl TypeError))
   \<and> (getOrSetLocalGaiaHubConnection E caller = Inr hubConfig
        \<and> getFullReadUrl E path hubConfig = [] \<longrightarrow>
      getFileContents E caller path appO None zfl forceText = Inl RejectedNull)"
proof (intro conjI impI)
  assume a: "u \<noteq> [] \<and> lookupProfile E u zfl = Inr prof
      \<and> (apps prof = None \<or> (\<exists>as. apps prof = Some as \<and> (as appO = None \<or> as appO = Some [])))"
  then have url: "getUserAppFileUrl E p u appO zfl = Inr None" for p
    by (intro getUserAppFileUrl_no_bucket [of E u zfl prof]) simp_all
  with a have res: "resolveReadUrl E caller p appO (Some u) zfl = Inl RejectedNull" for p
    by (simp add: resolveReadUrl_def)
  have fc: "getFileContents E caller p appO (Some u) zfl ft = Inl RejectedNull" for p ft
    using res by (rule getFileContents_unresolved)
  show "getFileContents E caller path appO (Some u) zfl forceText = Inl RejectedNull"
    by (rule fc)
  {
    assume b: "appConfig caller = Some ac \<and> \<not> (v \<and> \<not> d)"
    with fc [of path d] show "getFileImpl E caller path
               (Some \<lparr>decrypt = Some d, verify = Some v, username = Some u, app = Some appO,
                      zoneFileLookupURL = zfl\<rparr>) = Inl RejectedNull"
      by (cases zfl) (auto simp: getFileImpl_def assign_get_def get_defaults_def)
  }
  {
    assume ac: "appConfig caller = Some ac"
    let ?get = "getFileImpl E caller path
             (Some \<lparr>decrypt = Some False, verify = Some True, username = Some u,
                    app = Some appO, zoneFileLookupURL = zfl\<rparr>)"
    have addr: "getGaiaAddress E caller appO (Some u) zfl = Inl TypeError"
      using a url [of "''/''"] by (simp add: getGaiaAddress_def)
    have "?get = Inl (first_rejected E [RejectedNull, RejectedNull, TypeError])"
      using ac fc addr
      by (cases zfl)
         (simp_all add: getFileImpl_def assign_get_def get_defaults_def
            getFileSignedUnencrypted_def Promise_all3_rejected)
    moreover have "first_rejected E [RejectedNull, RejectedNull, TypeError]
        \<in> set [RejectedNull, RejectedNull, TypeError]"
      by (rule first_rejected_member) simp
    ultimately show "?get = Inl RejectedNull \<or> ?get = Inl TypeError"
      by auto
  }
next
  assume "getOrSetLocalGaiaHubConnection E caller = Inr hubConfig
        \<and> getFullReadUrl E path hubConfig = []"
  then have "resolveReadUrl E caller path appO None zfl = Inl RejectedNull"
    by (simp add: resolveReadUrl_def)
  then show "getFileContents E caller path appO None zfl forceText = Inl RejectedNull"
    by (rule getFileContents_unresolved)
qed

text \<open>A user whose profile registers no bucket for the application: Get is rejected.\<close>

theorem no_bucket_counterexample:
  "getFileImpl ex_env ex_caller ''notes.txt''
     (Some \<lparr>decrypt = Some False, verify = Some False, username = Some ''bob.id'',
            app = None, zoneFileLookupURL = None\<rparr>) = Inl RejectedNull
   \<and> getFileImpl ex_env ex_caller ''notes.txt''
     (Some \<lparr>decrypt = Some False, verify = Some False, username = Some ''bob.id'',
            app = None, zoneFileLookupURL = None\<rparr>) \<noteq> Inr JNull"
  by (simp add: getFileImpl_def assign_get_def get_defaults_def getFileContents_def
      resolveReadUrl_def getUserAppFileUrl_def)

text \<open>
  The same user read in each mode. In the mode that verifies without decrypting the
  outcome follows the rejection that is first: \<^verbatim>\<open>null\<close> when it is a fetch, the
  \<^verbatim>\<open>TypeError\<close> when it is the trust-anchor resolution.
\<close>

theorem no_read_url_is_rejected_witness:
  "getFileContents ex_env ex_caller ''notes.txt'' ''https://app.example'' (Some ''bob.id'') None False
     = Inl RejectedNull
   \<and> getFileImpl ex_env ex_caller ''notes.txt''
        (Some \<lparr>decrypt = Some True, verify = Some False, username = Some ''bob.id'',
               app = Some ''https://app.example'', zoneFileLookupURL = None\<rparr>) = Inl RejectedNull
   \<and> getFileImpl ex_env ex_caller ''notes.txt''
        (Some \<lparr>decrypt = Some False, verify = Some True, username = Some ''bob.id'',
               app = Some ''https://app.example'', zoneFileLookupURL = None\<rparr>) = Inl RejectedNull
   \<and> getFileImpl (ex_env\<lparr>schedule := (\<lambda>es. 2)\<rparr>) ex_caller ''notes.txt''
        (Some \<lparr>decrypt = Some False, verify = Some True, username = Some ''bob.id'',
               app = Some ''https://app.example'', zoneFileLookupURL = None\<rparr>) = Inl TypeError
   \<and> getFileContents (ex_env\<lparr>getFullReadUrl := (\<lambda>p c. [])\<rparr>) ex_caller ''notes.txt''
        ''https://app.example'' None None False = Inl RejectedNull"
proof -
  let ?ac = "\<lparr>appDomain = ''https://app.example''\<rparr>"
  let ?v = "Some \<lparr>decrypt = Some False, verify = Some True, username = Some ''bob.id'',
               app = Some ''https://app.example'', zoneFileLookupURL = None\<rparr>"
  have first: "getFileImpl ex_env ex_caller ''notes.txt'' ?v \<noteq> Inl TypeError"
    by (simp add: getFileImpl_def assign_get_def get_defaults_def getFileSignedUnencrypted_def
        getFileContents_def resolveReadUrl_def getUserAppFileUrl_def getGaiaAddress_def
        Promise_all3_rejected first_rejected_def)
  have last: "getFileImpl (ex_env\<lparr>schedule := (\<lambda>es. 2)\<rparr>) ex_caller ''notes.txt'' ?v
      \<noteq> Inl RejectedNull"
    by (simp add: getFileImpl_def assign_get_def get_defaults_def getFileSignedUnencrypted_def
        getFileContents_def resolveReadUrl_def getUserAppFileUrl_def getGaiaAddress_def
        Promise_all3_rejected first_rejected_def)
  from first last show ?thesis
    using no_read_url_is_rejected
      [of "''bob.id''" ex_env None "\<lparr>apps = Some Map.empty\<rparr>" "''https://app.example''"
          ex_caller "''notes.txt''" False ?ac False True]
      no_read_url_is_rejected
      [of "''bob.id''" "ex_env\<lparr>schedule := (\<lambda>es. 2)\<rparr>" None "\<lparr>apps = Some Map.empty\<rparr>"
          "''https://app.example''" ex_caller "''notes.txt''" False ?ac False True]
      no_read_url_is_rejected
      [of "''bob.id''" "ex_env\<lparr>getFullReadUrl := (\<lambda>p c. [])\<rparr>" None
          "\<lparr>apps = Some Map.empty\<rparr>" "''https://app.example''" ex_caller "''notes.txt''" False
          ?ac False True ex_hubConfig]
    by simp
qed

section \<open>Get\<close>

text \<open>
  C4 (as amended). When the response for the content file is a 404, Get resolves to
  \<^verbatim>\<open>null\<close> in the three modes that fetch one file, whatever the codec and the
  verification primitives would do. In the mode that verifies without decrypting, the
  fetch of the signature file and the resolution of the trust anchor are joined with the
  content fetch: Get resolves to \<^verbatim>\<open>null\<close> when those two succeed, and is rejected with
  the error of the one that fails (with one of the two errors, the one that is first, when
  both fail).
\<close>

theorem get_404_is_null:
  "appConfig caller = Some ac \<and> assign_get (get_defaults ac) options = opt
     \<and> resolveReadUrl E caller path (opt_app opt) (opt_username opt) (opt_zoneFileLookupURL opt)
         = Inr url
     \<and> status (fetch E url) = 404 \<longrightarrow>
     (\<not> (opt_verify opt \<and> \<not> opt_decrypt opt) \<longrightarrow> getFileImpl E caller path options = Inr JNull)
   \<and> (opt_verify opt \<and> \<not> opt_decrypt opt
        \<and> getFileContents E caller (path @ SIGNATURE_FILE_SUFFIX) (opt_app opt) (opt_username opt)
              (opt_zoneFileLookupURL opt) True = Inr signatureContents
        \<and> getGaiaAddress E caller (opt_app opt) (opt_username opt) (opt_zoneFileLookupURL opt)
              = Inr gaiaAddress \<longrightarrow>
       getFileImpl E caller path options = Inr JNull)
   \<and> (opt_verify opt \<and> \<not> opt_decrypt opt
        \<and> getFileContents E caller (path @ SIGNATURE_FILE_SUFFIX) (opt_app opt) (opt_username opt)
              (opt_zoneFileLookupURL opt) True = Inl e
        \<and> getGaiaAddress E caller (opt_app opt) (opt_username opt) (opt_zoneFileLookupURL opt)
              = Inr gaiaAddress \<longrightarrow>
       getFileImpl E caller path options = Inl e)
   \<and> (opt_verify opt \<and> \<not> opt_decrypt opt
        \<and> getFileContents E caller (path @ SIGNATURE_FILE_SUFFIX) (opt_app opt) (opt_username opt)
              (opt_zoneFileLookupURL opt) True = Inr signatureContents
        \<and> getGaiaAddress E caller (opt_app opt) (opt_username opt) (opt_zoneFileLookupURL opt)
              = Inl e \<longrightarrow>
       getFileImpl E caller path options = Inl e)
   \<and> (opt_verify opt \<and> \<not> opt_decrypt opt
        \<and> getFileContents E caller (path @ SIGNATURE_FILE_SUFFIX) (opt_app opt) (opt_username opt)
              (opt_zoneFileLookupURL opt) True = Inl e
        \<and> getGaiaAddress E caller (opt_app opt) (opt_username opt) (opt_zoneFileLookupURL opt)
              = Inl e' \<longrightarrow>
       getFileImpl E caller path options = Inl e \<or> getFileImpl E caller path options = Inl e')"
proof (intro impI conjI)
  assume a: "appConfig caller = Some ac \<and> assign_get (get_defaults ac) options = opt
     \<and> resolveReadUrl E caller path (opt_app opt) (opt_username opt) (opt_zoneFileLookupURL opt)
         = Inr url
     \<and> status (fetch E url) = 404"
  then have fc: "getFileContents E caller path (opt_app opt) (opt_username opt)
      (opt_zoneFileLookupURL opt) forceText = Inr JNull" for forceText
    by (simp add: getFileContents_resolved handleResponse_def)
  let ?sig = "getFileContents E caller (path @ SIGNATURE_FILE_SUFFIX) (opt_app opt)
      (opt_username opt) (opt_zoneFileLookupURL opt) True"
  let ?addr = "getGaiaAddress E caller (opt_app opt) (opt_username opt)
      (opt_zoneFileLookupURL opt)"
  have joined: "getFileImpl E caller path options
      = andThen (Promise_all3 E (Inr JNull) ?sig ?addr) (\<lambda>(f, s, g). Inr JNull)"
    if "opt_verify opt \<and> \<not> opt_decrypt opt"
  proof (cases "Promise_all3 E (Inr JNull :: error + jsval) ?sig ?addr")
    case (Inl x)
    with a that fc [of False] show ?thesis
      by (simp add: getFileImpl_def getFileSignedUnencrypted_def Let_def)
  next
    case (Inr t)
    then obtain s g where "?sig = Inr s" "?addr = Inr g"
      by (cases ?sig; cases ?addr) (simp_all add: Promise_all3_def)
    with a that fc [of False] show ?thesis
      by (simp add: getFileImpl_def getFileSignedUnencrypted_def Let_def)
  qed
  {
    assume "\<not> (opt_verify opt \<and> \<not> opt_decrypt opt)"
    with a fc [of "opt_decrypt opt"] show "getFileImpl E caller path options = Inr JNull"
      by (auto simp: getFileImpl_def Let_def)
  }
  {
    assume b: "opt_verify opt \<and> \<not> opt_decrypt opt \<and> ?sig = Inr signatureContents
        \<and> ?addr = Inr gaiaAddress"
    then show "getFileImpl E caller path options = Inr JNull"
      by (simp add: joined)
  }
  {
    assume b: "opt_verify opt \<and> \<not> opt_decrypt opt \<and> ?sig = Inl e \<and> ?addr = Inr gaiaAddress"
    then show "getFileImpl E caller path options = Inl e"
      by (simp add: joined Promise_all3_rejected)
  }
  {
    assume b: "opt_verify opt \<and> \<not> opt_decrypt opt \<and> ?sig = Inr signatureContents
        \<and> ?addr = Inl e"
    then show "getFileImpl E caller path options = Inl e"
      by (simp add: joined Promise_all3_rejected)
  }
  {
    assume b: "opt_verify opt \<and> \<not> opt_decrypt opt \<and> ?sig = Inl e \<and> ?addr = Inl e'"
    then have "getFileImpl E caller path options = Inl (first_rejected E [e, e'])"
      by (simp add: joined Promise_all3_rejected)
    moreover have "first_rejected E [e, e'] \<in> set [e, e']"
      by (rule first_rejected_member) simp
    ultimately show "getFileImpl E caller path options = Inl e
        \<or> getFileImpl E caller path options = Inl e'"
      by auto
  }
qed

text \<open>
  The content file is absent (404) and the read of the signature file fails with a 500:
  in the mode that verifies without decrypting, Get is rejected with that failure.
\<close>

theorem get_404_signature_error_counterexample:
  "status (fetch (ex_env\<lparr>fetch := ex_sig_unavailable\<rparr>) (ex_readUrl ''notes.txt'' ex_hubConfig)) = 404
   \<and> getFileImpl (ex_env\<lparr>fetch := ex_sig_unavailable\<rparr>) ex_caller ''notes.txt''
       (Some \<lparr>decrypt = Some False, verify = Some True, username = None, app = None,
              zoneFileLookupURL = None\<rparr>)
     = Inl (GetFileHttpError ''notes.txt.sig'' 500)"
  by (simp add: getFileImpl_def getFileSignedUnencrypted_def assign_get_def get_defaults_def
      getFileContents_def own_storage_url own_storage_address handleResponse_def
      ex_sig_unavailable_def SIGNATURE_FILE_SUFFIX_def Promise_all3_rejected)

text \<open>
  On the hub that holds nothing Get resolves to \<^verbatim>\<open>null\<close> in the mode that decrypts and
  verifies and in the mode that verifies only; where the read of the signature file fails,
  or the read URL carries no address, the mode that verifies only is rejected with that
  error.
\<close>

theorem get_404_is_null_witness:
  "getFileImpl ex_env ex_caller ''notes.txt''
       (Some \<lparr>decrypt = Some True, verify = Some True, username = None, app = None,
              zoneFileLookupURL = None\<rparr>) = Inr JNull
   \<and> getFileImpl ex_env ex_caller ''notes.txt''
       (Some \<lparr>decrypt = Some False, verify = Some True, username = None, app = None,
              zoneFileLookupURL = None\<rparr>) = Inr JNull
   \<and> getFileImpl (ex_env\<lparr>fetch := ex_sig_unavailable\<rparr>) ex_caller ''notes.txt''
       (Some \<lparr>decrypt = Some False, verify = Some True, username = None, app = None,
              zoneFileLookupURL = None\<rparr>) = Inl (GetFileHttpError ''notes.txt.sig'' 500)
   \<and> getFileImpl (ex_env\<lparr>getFullReadUrl := (\<lambda>p c. ''https://hub.example/'' @ p)\<rparr>) ex_caller
       ''notes.txt''
       (Some \<lparr>decrypt = Some False, verify = Some True, username = None, app = None,
              zoneFileLookupURL = None\<rparr>) = Inl (Error ''Failed to parse gaia address'')"
proof -
  let ?ac = "\<lparr>appDomain = ''https://app.example''\<rparr>"
  let ?dv = "Some \<lparr>decrypt = Some True, verify = Some True, username = None, app = None,
              zoneFileLookupURL = None\<rparr>"
  let ?v = "Some \<lparr>decrypt = Some False, verify = Some True, username = None, app = None,
              zoneFileLookupURL = None\<rparr>"
  let ?E1 = "ex_env\<lparr>fetch := ex_sig_unavailable\<rparr>"
  let ?E2 = "ex_env\<lparr>getFullReadUrl := (\<lambda>p c. ''https://hub.example/'' @ p)\<rparr>"
  have url: "resolveReadUrl ex_env ex_caller p ''https://app.example'' None None
       = Inr (ex_readUrl p ex_hubConfig)" for p
    by (simp add: own_storage_url)
  have sigc: "getFileContents ex_env ex_caller (''notes.txt'' @ SIGNATURE_FILE_SUFFIX)
      ''https://app.example'' None None True = Inr JNull"
    by (simp add: getFileContents_def url handleResponse_def)
  have addr: "getGaiaAddress ex_env ex_caller ''https://app.example'' None None = Inr ex_address"
    by (simp add: own_storage_address)
  have url1: "resolveReadUrl ?E1 ex_caller p ''https://app.example'' None None
       = Inr (ex_readUrl p ex_hubConfig)" for p
    by (simp add: own_storage_url)
  have sigc1: "getFileContents ?E1 ex_caller (''notes.txt'' @ SIGNATURE_FILE_SUFFIX)
      ''https://app.example'' None None True = Inl (GetFileHttpError ''notes.txt.sig'' 500)"
    by (simp add: getFileContents_def url1 handleResponse_def ex_sig_unavailable_def
        SIGNATURE_FILE_SUFFIX_def)
  have addr1: "getGaiaAddress ?E1 ex_caller ''https://app.example'' None None = Inr ex_address"
    by (simp add: own_storage_address)
  have url2: "resolveReadUrl ?E2 ex_caller p ''https://app.example'' None None
       = Inr (''https://hub.example/'' @ p)" for p
    by (simp add: resolveReadUrl_def)
  have sigc2: "getFileContents ?E2 ex_caller (''notes.txt'' @ SIGNATURE_FILE_SUFFIX)
      ''https://app.example'' None None True = Inr JNull"
    by (simp add: getFileContents_def resolveReadUrl_def handleResponse_def)
  have addr2: "getGaiaAddress ?E2 ex_caller ''https://app.example'' None None
      = Inl (Error ''Failed to parse gaia address'')"
    by (simp add: getGaiaAddress_def)
  show ?thesis
    using get_404_is_null [of ex_caller ?ac ?dv
        "assign_get (get_defaults ?ac) ?dv" ex_env "''notes.txt''"
        "ex_readUrl ''notes.txt'' ex_hubConfig"]
      get_404_is_null [of ex_caller ?ac ?v
        "assign_get (get_defaults ?ac) ?v" ex_env "''notes.txt''"
        "ex_readUrl ''notes.txt'' ex_hubConfig" JNull ex_address]
      get_404_is_null [of ex_caller ?ac ?v
        "assign_get (get_defaults ?ac) ?v" ?E1 "''notes.txt''"
        "ex_readUrl ''notes.txt'' ex_hubConfig" _ ex_address "GetFileHttpError ''notes.txt.sig'' 500"]
      get_404_is_null [of ex_caller ?ac ?v
        "assign_get (get_defaults ?ac) ?v" ?E2 "''notes.txt''"
        "''https://hub.example/notes.txt''" JNull _ "Error ''Failed to parse gaia address''"]
      url sigc addr url1 sigc1 addr1 url2 sigc2 addr2
    by (simp add: assign_get_def get_defaults_def ex_sig_unavailable_def)
qed

text \<open>
  C3. A hub on which \<^verbatim>\<open>notes.txt\<close> exists as an empty text file and
  \<^verbatim>\<open>notes.txt.sig\<close> is absent: Get with \<^verbatim>\<open>verify\<close> and without \<^verbatim>\<open>decrypt\<close>
  resolves to the empty content. The test \<^verbatim>\<open>!fileContents\<close> takes the empty string for
  a missing file, and nothing is verified.
\<close>

theorem empty_file_unverified:
  "getFileImpl (ex_env\<lparr>fetch := ex_empty_file\<rparr>) ex_caller ''notes.txt''
     (Some \<lparr>decrypt = Some False, verify = Some True, username = None, app = None,
            zoneFileLookupURL = None\<rparr>) = Inr (JStr [])"
  by (simp add: getFileImpl_def assign_get_def get_defaults_def getFileSignedUnencrypted_def
      getFileContents_def own_storage_url own_storage_address handleResponse_def ex_empty_file_def
      SIGNATURE_FILE_SUFFIX_def startsWith_def)

text \<open>
  For a content that is not falsy the behaviour is the one the claim describes: with the
  signature file absent and the trust anchor resolved, Get is rejected with the
  signature-verification error for the missing signature, whose message differs from the
  message of an address mismatch.
\<close>

lemma signature_file_missing:
  assumes ac: "appConfig caller = Some ac"
    and content: "getFileContents E caller path (appDomain ac) None None False = Inr fileContents"
    and truthy: "truthy fileContents"
    and nosig: "getFileContents E caller (path @ SIGNATURE_FILE_SUFFIX) (appDomain ac) None None True
                  = Inr JNull"
    and addr: "getGaiaAddress E caller (appDomain ac) None None = Inr a"
  shows "getFileImpl E caller path
           (Some \<lparr>decrypt = Some False, verify = Some True, username = None, app = None,
                  zoneFileLookupURL = None\<rparr>)
         = Inl (SignatureVerificationError
                  (if a = [] then NO_GAIA_ADDRESS path else NO_SIGNATURE path))"
  using assms
  by (simp add: getFileImpl_def assign_get_def get_defaults_def getFileSignedUnencrypted_def)

lemma missing_signature_distinct:
  "NO_SIGNATURE path \<noteq> ADDRESS_MISMATCH signerAddress gaiaAddress"
  by (simp add: NO_SIGNATURE_def ADDRESS_MISMATCH_def)

section \<open>Put\<close>

lemma resolveKeys_off:
  "resolveKeys E caller \<lparr>opt_encrypt = B False, opt_sign = B sg\<rparr>
     = Inr \<lparr>privateKey = (if sg then appPrivateKey caller else []), encryptionKey = [],
            loadUserData_calls = (if sg then 1 else 0)\<rparr>"
  by (simp add: resolveKeys_def resolveSigningKey_def)

lemma resolveKeys_on:
  "resolveKeys E caller \<lparr>opt_encrypt = B True, opt_sign = B sg\<rparr>
     = andThen (getPublicKeyFromPrivate E (appPrivateKey caller)) (\<lambda>pk.
         Inr \<lparr>privateKey = appPrivateKey caller, encryptionKey = pk,
              loadUserData_calls = (if sg \<and> appPrivateKey caller \<noteq> [] then 1
                                    else if sg then 2 else 1)\<rparr>)"
  by (simp add: resolveKeys_def resolveSigningKey_def numeral_2_eq_2)

lemma encryptContentImpl_own:
  "getPublicKeyFromPrivate E (appPrivateKey caller) = Inr pk \<Longrightarrow>
     encryptContentImpl E caller content (Some pk)
       = andThen (encryptECIES E pk content) (\<lambda>co. Inr (JSON_stringify E co))"
  by (simp add: encryptContentImpl_def)

lemma put_plain:
  "putFileImpl E caller path content (Some \<lparr>encrypt = Some (B False), sign = Some (B False)\<rparr>)
     = andThen (getOrSetLocalGaiaHubConnection E caller) (\<lambda>hubConfig.
         Inr [\<lparr>up_filename = path, up_contents = content, up_hubConfig = hubConfig,
               up_contentType = (if \<not> is_string content then ''application/octet-stream''
                                 else ''text/plain'')\<rparr>])"
  by (simp add: putFileImpl_def assign_put_def put_defaults_def resolveKeys_off)

lemma put_signed:
  "putFileImpl E caller path content (Some \<lparr>encrypt = Some (B False), sign = Some (B True)\<rparr>)
     = andThen (signECDSA E (appPrivateKey caller) content) (\<lambda>so.
       andThen (getOrSetLocalGaiaHubConnection E caller) (\<lambda>hubConfig.
         Inr [\<lparr>up_filename = path, up_contents = content, up_hubConfig = hubConfig,
               up_contentType = (if \<not> is_string content then ''application/octet-stream''
                                 else ''text/plain'')\<rparr>,
              \<lparr>up_filename = path @ SIGNATURE_FILE_SUFFIX,
               up_contents = JStr (JSON_stringify E (signature_json so)),
               up_hubConfig = hubConfig, up_contentType = ''application/json''\<rparr>]))"
  by (simp add: putFileImpl_def assign_put_def put_defaults_def resolveKeys_off)

lemma put_encrypted:
  "putFileImpl E caller path content (Some \<lparr>encrypt = Some (B True), sign = Some (B False)\<rparr>)
     = andThen (getPublicKeyFromPrivate E (appPrivateKey caller)) (\<lambda>pk.
       andThen (encryptECIES E pk content) (\<lambda>co.
       andThen (getOrSetLocalGaiaHubConnection E caller) (\<lambda>hubConfig.
         Inr [\<lparr>up_filename = path, up_contents = JStr (JSON_stringify E co),
               up_hubConfig = hubConfig, up_contentType = ''application/json''\<rparr>])))"
proof (cases "getPublicKeyFromPrivate E (appPrivateKey caller)")
  case (Inl e)
  then show ?thesis
    by (simp add: putFileImpl_def assign_put_def put_defaults_def resolveKeys_on)
next
  case (Inr pk)
  then show ?thesis
    by (cases "encryptECIES E pk content")
      (simp_all add: putFileImpl_def assign_put_def put_defaults_def resolveKeys_on
        encryptContentImpl_own)
qed

lemma put_encrypted_signed:
  "putFileImpl E caller path content (Some \<lparr>encrypt = Some (B True), sign = Some (B True)\<rparr>)
     = andThen (getPublicKeyFromPrivate E (appPrivateKey caller)) (\<lambda>pk.
       andThen (encryptECIES E pk content) (\<lambda>co.
       andThen (signECDSA E (appPrivateKey caller) (JStr (JSON_stringify E co))) (\<lambda>so.
       andThen (getOrSetLocalGaiaHubConnection E caller) (\<lambda>hubConfig.
         Inr [\<lparr>up_filename = path,
               up_contents = JStr (JSON_stringify E
                                     (signedCipherObject so (JSON_stringify E co))),
               up_hubConfig = hubConfig, up_contentType = ''application/json''\<rparr>]))))"
proof (cases "getPublicKeyFromPrivate E (appPrivateKey caller)")
  case (Inl e)
  then show ?thesis
    by (simp add: putFileImpl_def assign_put_def put_defaults_def resolveKeys_on)
next
  case (Inr pk)
  show ?thesis
  proof (cases "encryptECIES E pk content")
    case (Inl e)
    with Inr show ?thesis
      by (simp add: putFileImpl_def assign_put_def put_defaults_def resolveKeys_on
          encryptContentImpl_own)
  next
    case co: (Inr co)
    with Inr show ?thesis
      by (cases "signECDSA E (appPrivateKey caller) (JStr (JSON_stringify E co))")
        (simp_all add: putFileImpl_def assign_put_def put_defaults_def resolveKeys_on
          encryptContentImpl_own)
  qed
qed



section \<open>The round trip\<close>

lemma roundtrip_plain:
  assumes ac: "appConfig caller = Some ac"
    and content: "is_content content"
    and safe: "text_safe content"
    and put: "putFileImpl E caller path content
                (Some \<lparr>encrypt = Some (B False), sign = Some (B False)\<rparr>) = Inr ups"
    and hub: "\<forall>u \<in> set ups. stores E u"
  shows "getFileImpl E caller path
           (Some \<lparr>decrypt = Some False, verify = Some False, username = None, app = None,
                  zoneFileLookupURL = None\<rparr>) = Inr content"
proof -
  from put obtain hubConfig where conn: "getOrSetLocalGaiaHubConnection E caller = Inr hubConfig"
    and ups: "ups = [\<lparr>up_filename = path, up_contents = content, up_hubConfig = hubConfig,
               up_contentType = (if \<not> is_string content then ''application/octet-stream''
                                 else ''text/plain'')\<rparr>]"
    by (auto simp: put_plain andThen_eq_Inr)
  have fc: "getFileContents E caller path (appDomain ac) None None False = Inr content"
    using content safe hub
    by (subst fetch_stored [OF conn, of "hd ups"])
       (auto simp: ups handleResponse_def is_content_def text_safe_def startsWith_def
          split: jsval.splits)
  show ?thesis
    using ac content fc
    by (auto simp: getFileImpl_def assign_get_def get_defaults_def is_content_def
        split: jsval.splits)
qed

lemma roundtrip_encrypted:
  assumes ac: "appConfig caller = Some ac"
    and put: "putFileImpl E caller path content
                (Some \<lparr>encrypt = Some (B True), sign = Some (B False)\<rparr>) = Inr ups"
    and hub: "\<forall>u \<in> set ups. stores E u"
    and ok: "collaborators_correct E caller hubConfig content"
  shows "getFileImpl E caller path
           (Some \<lparr>decrypt = Some True, verify = Some False, username = None, app = None,
                  zoneFileLookupURL = None\<rparr>) = Inr content"
proof -
  from put obtain pk co cfg where pk: "getPublicKeyFromPrivate E (appPrivateKey caller) = Inr pk"
    and co: "encryptECIES E pk content = Inr co"
    and conn: "getOrSetLocalGaiaHubConnection E caller = Inr cfg"
    and ups: "ups = [\<lparr>up_filename = path, up_contents = JStr (JSON_stringify E co),
               up_hubConfig = cfg, up_contentType = ''application/json''\<rparr>]"
    by (auto simp: put_encrypted andThen_eq_Inr)
  from ok pk co have dec: "decryptECIES E (appPrivateKey caller) co = Inr content"
    and parse: "JSON_parse E (JStr (JSON_stringify E co)) = Some co"
    and stable: "response_text (JSON_stringify E co) = JSON_stringify E co"
    by (auto simp: collaborators_correct_def json_roundtrip_def)
  have fc: "getFileContents E caller path (appDomain ac) None None True
              = Inr (JStr (JSON_stringify E co))"
    using hub stable
    by (subst fetch_stored [OF conn, of "hd ups"]) (auto simp: ups handleResponse_def)
  show ?thesis
    using ac fc dec parse
    by (simp add: getFileImpl_def assign_get_def get_defaults_def decryptContentImpl_def)
qed

lemma roundtrip_signed:
  assumes ac: "appConfig caller = Some ac"
    and conn: "getOrSetLocalGaiaHubConnection E caller = Inr hubConfig"
    and content: "is_content content"
    and safe: "text_safe content"
    and put: "putFileImpl E caller path content
                (Some \<lparr>encrypt = Some (B False), sign = Some (B True)\<rparr>) = Inr ups"
    and hub: "\<forall>u \<in> set ups. stores E u"
    and ok: "collaborators_correct E caller hubConfig content"
  shows "getFileImpl E caller path
           (Some \<lparr>decrypt = Some False, verify = Some True, username = None, app = None,
                  zoneFileLookupURL = None\<rparr>) = Inr content"
proof -
  from put conn obtain so where so: "signECDSA E (appPrivateKey caller) content = Inr so"
    and ups: "ups = [\<lparr>up_filename = path, up_contents = content, up_hubConfig = hubConfig,
               up_contentType = (if \<not> is_string content then ''application/octet-stream''
                                 else ''text/plain'')\<rparr>,
              \<lparr>up_filename = path @ SIGNATURE_FILE_SUFFIX,
               up_contents = JStr (JSON_stringify E (signature_json so)),
               up_hubConfig = hubConfig, up_contentType = ''application/json''\<rparr>]"
    by (auto simp: put_signed andThen_eq_Inr)
  from ok obtain pk a where pk: "getPublicKeyFromPrivate E (appPrivateKey caller) = Inr pk"
    and a: "match_address (getFullReadUrl E ''/'' hubConfig) = Some a"
    and pka: "publicKeyToAddress E (JStr pk) = Inr a"
    and sig: "\<forall>so buf. signECDSA E (appPrivateKey caller) content = Inr so
                    \<and> Buffer_from content = Inr buf \<longrightarrow>
              signature_valid E pk buf so \<and> json_roundtrip E (signature_json so)"
    unfolding collaborators_correct_def by blast
  from sig so Buffer_from_content [OF content]
  have valid: "signature_valid E pk (JBuf (bytes_of content)) so"
    and json: "json_roundtrip E (signature_json so)"
    by blast+
  have fc: "getFileContents E caller path (appDomain ac) None None False = Inr content"
    using content safe hub
    by (subst fetch_stored [OF conn, of "hd ups"])
       (auto simp: ups handleResponse_def is_content_def text_safe_def startsWith_def
          split: jsval.splits)
  have fs: "getFileContents E caller (path @ SIGNATURE_FILE_SUFFIX) (appDomain ac) None None True
              = Inr (JStr (JSON_stringify E (signature_json so)))"
    using hub json
    by (subst fetch_stored [OF conn, of "hd (tl ups)"])
       (auto simp: ups handleResponse_def json_roundtrip_def)
  have addr: "getGaiaAddress E caller (appDomain ac) None None = Inr a"
    using conn a by (rule own_storage_address)
  have "getFileSignedUnencrypted E caller path
          \<lparr>opt_decrypt = False, opt_verify = True, opt_username = None,
           opt_app = appDomain ac, opt_zoneFileLookupURL = None\<rparr> = Inr content"
    using fc fs addr match_address_nonempty [OF a] valid json pka
      Buffer_from_content [OF content]
    by (simp add: getFileSignedUnencrypted_def signature_valid_def json_roundtrip_def)
  with ac show ?thesis
    by (simp add: getFileImpl_def assign_get_def get_defaults_def)
qed

lemma roundtrip_encrypted_signed:
  assumes ac: "appConfig caller = Some ac"
    and put: "putFileImpl E caller path content
                (Some \<lparr>encrypt = Some (B True), sign = Some (B True)\<rparr>) = Inr ups"
    and hub: "\<forall>u \<in> set ups. stores E u"
    and ok: "collaborators_correct E caller hubConfig content"
  shows "getFileImpl E caller path
           (Some \<lparr>decrypt = Some True, verify = Some True, username = None, app = None,
                  zoneFileLookupURL = None\<rparr>) = Inr content"
proof -
  from put obtain pk co so cfg
    where pk: "getPublicKeyFromPrivate E (appPrivateKey caller) = Inr pk"
    and co: "encryptECIES E pk content = Inr co"
    and so: "signECDSA E (appPrivateKey caller) (JStr (JSON_stringify E co)) = Inr so"
    and conn: "getOrSetLocalGaiaHubConnection E caller = Inr cfg"
    and ups: "ups = [\<lparr>up_filename = path,
               up_contents = JStr (JSON_stringify E
                                     (signedCipherObject so (JSON_stringify E co))),
               up_hubConfig = cfg, up_contentType = ''application/json''\<rparr>]"
    by (auto simp: put_encrypted_signed andThen_eq_Inr)
  from ok pk obtain a where nonempty: "pk \<noteq> []"
    and a: "match_address (getFullReadUrl E ''/'' hubConfig) = Some a"
    and pka: "publicKeyToAddress E (JStr pk) = Inr a"
    and enc: "\<forall>co. encryptECIES E pk content = Inr co \<longrightarrow>
              decryptECIES E (appPrivateKey caller) co = Inr content
              \<and> json_roundtrip E co
              \<and> (\<forall>so. signECDSA E (appPrivateKey caller) (JStr (JSON_stringify E co)) = Inr so \<longrightarrow>
                    signature_valid E pk (JStr (JSON_stringify E co)) so
                    \<and> json_roundtrip E (signedCipherObject so (JSON_stringify E co)))"
    unfolding collaborators_correct_def by auto
  from enc co so have dec: "decryptECIES E (appPrivateKey caller) co = Inr content"
    and jco: "json_roundtrip E co"
    and valid: "signature_valid E pk (JStr (JSON_stringify E co)) so"
    and jenv: "json_roundtrip E (signedCipherObject so (JSON_stringify E co))"
    by blast+
  have fc: "getFileContents E caller path (appDomain ac) None None True
              = Inr (JStr (JSON_stringify E (signedCipherObject so (JSON_stringify E co))))"
    using hub jenv
    by (subst fetch_stored [OF conn, of "hd ups"])
       (auto simp: ups handleResponse_def json_roundtrip_def)
  have "handleSignedEncryptedContents E caller path
          (JStr (JSON_stringify E (signedCipherObject so (JSON_stringify E co))))
          (appDomain ac) None None = Inr content"
    using pk pka match_address_nonempty [OF a] nonempty dec jco valid jenv
    by (simp add: handleSignedEncryptedContents_def signature_valid_def json_roundtrip_def
        decryptContent_def decryptContentImpl_def)
  with ac fc show ?thesis
    by (simp add: getFileImpl_def assign_get_def get_defaults_def)
qed


lemma ex_cipher [simp]:
  "ex_parse (JStr (ex_stringify (JObj [(''to'', JStr (ex_publicKey ''a1'')), (''data'', JStr ''hello'')])))
     = Some (JObj [(''to'', JStr (ex_publicKey ''a1'')), (''data'', JStr ''hello'')])"
  by (simp add: ex_publicKey_def unary_def read_bytes_def)

lemma ex_uploads_encrypted_signed:
  "ex_uploads (JStr ''hello'') True True
     = [\<lparr>up_filename = ''notes.txt'',
         up_contents = JStr (ex_stringify (signedCipherObject
            \<lparr>signature = ''signed-a1:'' @ ex_stringify (JObj [(''to'', JStr (ex_publicKey ''a1'')), (''data'', JStr ''hello'')]),
             publicKey = ex_publicKey ''a1''\<rparr>
            (ex_stringify (JObj [(''to'', JStr (ex_publicKey ''a1'')), (''data'', JStr ''hello'')])))),
         up_hubConfig = ex_hubConfig, up_contentType = ''application/json''\<rparr>]"
  by (simp add: ex_uploads_def put_encrypted_signed getPublicKeyFromPrivate_def ex_encrypt_def ex_sign_def)

lemma ex_collaborators_correct:
  "collaborators_correct (ex_env_after (JStr ''hello'') enc sg) ex_caller ex_hubConfig
     (JStr ''hello'')"
  unfolding collaborators_correct_def
  apply (rule exI [of _ "ex_publicKey ''a1''"])
  apply (rule exI [of _ ex_address])
  apply (simp add: ex_encrypt_def ex_sign_def ex_decrypt_def json_roundtrip_def
      signature_valid_def ex_verify_def)
  apply (simp add: ex_publicKey_def unary_def read_bytes_def signedCipherObject_def
      signature_json_def text_eval)
  done

lemma ex_uploads_encrypted:
  "ex_uploads (JStr ''hello'') True False
     = [\<lparr>up_filename = ''notes.txt'', up_contents = JStr (ex_stringify ex_cipherObject),
         up_hubConfig = ex_hubConfig, up_contentType = ''application/json''\<rparr>]"
  by (simp add: ex_uploads_def put_encrypted getPublicKeyFromPrivate_def ex_encrypt_def
      ex_cipherObject_def)

lemma ex_uploads_plain:
  "ex_uploads (JBuf ''hello'') False False
     = [\<lparr>up_filename = ''notes.txt'', up_contents = JBuf ''hello'',
         up_hubConfig = ex_hubConfig, up_contentType = ''application/octet-stream''\<rparr>]"
  by (simp add: ex_uploads_def put_plain)

lemma ex_uploads_signed:
  "ex_uploads (JStr ''hello'') False True
     = [\<lparr>up_filename = ''notes.txt'', up_contents = JStr ''hello'',
         up_hubConfig = ex_hubConfig, up_contentType = ''text/plain''\<rparr>,
        \<lparr>up_filename = ''notes.txt.sig'',
         up_contents = JStr (ex_stringify (signature_json
            \<lparr>signature = ''signed-a1:hello'', publicKey = ex_publicKey ''a1''\<rparr>)),
         up_hubConfig = ex_hubConfig, up_contentType = ''application/json''\<rparr>]"
  by (simp add: ex_uploads_def put_signed ex_sign_def SIGNATURE_FILE_SUFFIX_def)

lemma ex_uploads_bom_plain:
  "ex_uploads ex_bom_hello False False
     = [\<lparr>up_filename = ''notes.txt'', up_contents = ex_bom_hello,
         up_hubConfig = ex_hubConfig, up_contentType = ''text/plain''\<rparr>]"
  by (simp add: ex_uploads_def put_plain ex_bom_hello_def)

lemma ex_uploads_bom_signed:
  "ex_uploads ex_bom_hello False True
     = [\<lparr>up_filename = ''notes.txt'', up_contents = ex_bom_hello,
         up_hubConfig = ex_hubConfig, up_contentType = ''text/plain''\<rparr>,
        \<lparr>up_filename = ''notes.txt.sig'',
         up_contents = JStr (ex_stringify (signature_json
            \<lparr>signature = ''signed-a1:'' @ bytes_of ex_bom_hello,
             publicKey = ex_publicKey ''a1''\<rparr>)),
         up_hubConfig = ex_hubConfig, up_contentType = ''application/json''\<rparr>]"
  by (simp add: ex_uploads_def put_signed ex_sign_def SIGNATURE_FILE_SUFFIX_def ex_bom_hello_def)

lemma ex_uploads_bom_encrypted:
  "ex_uploads ex_bom_hello True False
     = [\<lparr>up_filename = ''notes.txt'',
         up_contents = JStr (ex_stringify
            (JObj [(''to'', JStr (ex_publicKey ''a1'')), (''data'', ex_bom_hello)])),
         up_hubConfig = ex_hubConfig, up_contentType = ''application/json''\<rparr>]"
  by (simp add: ex_uploads_def put_encrypted getPublicKeyFromPrivate_def ex_encrypt_def)

lemma ex_collaborators_correct_bom:
  "collaborators_correct (ex_env_after ex_bom_hello enc sg) ex_caller ex_hubConfig ex_bom_hello"
  unfolding collaborators_correct_def
  apply (rule exI [of _ "ex_publicKey ''a1''"])
  apply (rule exI [of _ ex_address])
  apply (simp add: ex_encrypt_def ex_sign_def ex_decrypt_def json_roundtrip_def
      signature_valid_def ex_verify_def ex_bom_hello_def)
  apply (simp add: ex_publicKey_def unary_def read_bytes_def signedCipherObject_def
      signature_json_def text_eval)
  done

lemma ex_collaborators_correct_buffer:
  "collaborators_correct (ex_env_after (JBuf ''hello'') enc sg) ex_caller ex_hubConfig
     (JBuf ''hello'')"
  unfolding collaborators_correct_def
  apply (rule exI [of _ "ex_publicKey ''a1''"])
  apply (rule exI [of _ ex_address])
  apply (simp add: ex_encrypt_def ex_sign_def ex_decrypt_def json_roundtrip_def
      signature_valid_def ex_verify_def)
  apply (simp add: ex_publicKey_def unary_def read_bytes_def signedCipherObject_def
      signature_json_def text_eval)
  done



text \<open>
  C2. With \<^verbatim>\<open>encrypt\<close> and \<^verbatim>\<open>sign\<close> on, Put signs the ciphertext (the serialised
  cipher object) and issues one upload, the serialised object of \<^verbatim>\<open>signature\<close>,
  \<^verbatim>\<open>publicKey\<close> and \<^verbatim>\<open>cipherText\<close>, as \<^verbatim>\<open>application/json\<close>. Get with
  \<^verbatim>\<open>decrypt\<close> and \<^verbatim>\<open>verify\<close>, on a stored envelope that carries the signature and
  the public key of the caller, does what \<^verbatim>\<open>verifyECDSA\<close> answers on the
  \<^verbatim>\<open>cipherText\<close> it reads: it decrypts that text when the signature is accepted and is
  rejected with the error for contents that do not match the signature when it is not (an
  empty \<^verbatim>\<open>cipherText\<close> is rejected before, as missing verification data). So when the
  signature is valid for no other message than the ciphertext that was signed, every
  stored envelope with another \<^verbatim>\<open>cipherText\<close> and the same signature fails
  verification.
\<close>

theorem encrypt_sign_envelope:
  assumes ac: "appConfig caller = Some ac"
    and conn: "getOrSetLocalGaiaHubConnection E caller = Inr hubConfig"
    and pk: "getPublicKeyFromPrivate E (appPrivateKey caller) = Inr pk" "pk \<noteq> []"
    and co: "encryptECIES E pk content = Inr co"
    and so: "signECDSA E (appPrivateKey caller) (JStr (JSON_stringify E co)) = Inr so"
    and signer: "publicKey so = pk" "signature so \<noteq> []"
    and addr: "publicKeyToAddress E (JStr pk) = Inr a" "a \<noteq> []"
    and url: "getFullReadUrl E path hubConfig \<noteq> []"
    and stored: "status (fetch E (getFullReadUrl E path hubConfig)) = 200"
    and parse: "JSON_parse E
                  (JStr (response_text (body (fetch E (getFullReadUrl E path hubConfig)))))
                  = Some (signedCipherObject so ct)"
  shows "putFileImpl E caller path content
           (Some \<lparr>encrypt = Some (B True), sign = Some (B True)\<rparr>)
         = Inr [\<lparr>up_filename = path,
                 up_contents = JStr (JSON_stringify E
                                       (signedCipherObject so (JSON_stringify E co))),
                 up_hubConfig = hubConfig, up_contentType = ''application/json''\<rparr>]
       \<and> getFileImpl E caller path
           (Some \<lparr>decrypt = Some True, verify = Some True, username = None,
                  app = None, zoneFileLookupURL = None\<rparr>)
         = (if ct = [] then Inl (SignatureVerificationError (NO_VERIFICATION_DATA path))
            else andThen (verifyECDSA E (JStr ct) (JStr pk) (JStr (signature so)))
                   (\<lambda>ok. if ok then decryptContent E caller (JStr ct)
                          else Inl (SignatureVerificationError
                                      (SIGNATURE_MISMATCH_IN_FILE path))))
       \<and> ((\<forall>m. m \<noteq> JSON_stringify E co \<longrightarrow>
               verifyECDSA E (JStr m) (JStr pk) (JStr (signature so)) = Inr False)
            \<and> ct \<noteq> JSON_stringify E co \<longrightarrow>
           getFileImpl E caller path
             (Some \<lparr>decrypt = Some True, verify = Some True, username = None,
                    app = None, zoneFileLookupURL = None\<rparr>)
           = Inl (SignatureVerificationError
                    (if ct = [] then NO_VERIFICATION_DATA path
                     else SIGNATURE_MISMATCH_IN_FILE path)))"
proof -
  let ?get = "getFileImpl E caller path
           (Some \<lparr>decrypt = Some True, verify = Some True, username = None,
                  app = None, zoneFileLookupURL = None\<rparr>)"
  let ?stored = "JStr (response_text (body (fetch E (getFullReadUrl E path hubConfig))))"
  have put: "putFileImpl E caller path content
           (Some \<lparr>encrypt = Some (B True), sign = Some (B True)\<rparr>)
         = Inr [\<lparr>up_filename = path,
                 up_contents = JStr (JSON_stringify E
                                       (signedCipherObject so (JSON_stringify E co))),
                 up_hubConfig = hubConfig, up_contentType = ''application/json''\<rparr>]"
    using conn pk co so by (simp add: put_encrypted_signed)
  have fc: "getFileContents E caller path (appDomain ac) None None True = Inr ?stored"
    using conn url stored by (simp add: getFileContents_def own_storage_url handleResponse_def)
  have handle: "handleSignedEncryptedContents E caller path ?stored (appDomain ac) None None
      = (if ct = [] then Inl (SignatureVerificationError (NO_VERIFICATION_DATA path))
         else andThen (verifyECDSA E (JStr ct) (JStr pk) (JStr (signature so)))
                (\<lambda>ok. if ok then decryptContent E caller (JStr ct)
                       else Inl (SignatureVerificationError
                                   (SIGNATURE_MISMATCH_IN_FILE path))))"
    using pk addr signer parse
    by (cases "verifyECDSA E (JStr ct) (JStr pk) (JStr (signature so))")
       (simp_all add: handleSignedEncryptedContents_def)
  have get: "?get
      = (if ct = [] then Inl (SignatureVerificationError (NO_VERIFICATION_DATA path))
         else andThen (verifyECDSA E (JStr ct) (JStr pk) (JStr (signature so)))
                (\<lambda>ok. if ok then decryptContent E caller (JStr ct)
                       else Inl (SignatureVerificationError
                                   (SIGNATURE_MISMATCH_IN_FILE path))))"
    using ac fc handle by (simp add: getFileImpl_def assign_get_def get_defaults_def)
  have tamper: "(\<forall>m. m \<noteq> JSON_stringify E co \<longrightarrow>
               verifyECDSA E (JStr m) (JStr pk) (JStr (signature so)) = Inr False)
            \<and> ct \<noteq> JSON_stringify E co \<longrightarrow>
           ?get = Inl (SignatureVerificationError
                    (if ct = [] then NO_VERIFICATION_DATA path
                     else SIGNATURE_MISMATCH_IN_FILE path))"
    unfolding get by auto
  from put get tamper show ?thesis by blast
qed

text \<open>
  A hub on which one byte of the plaintext inside the stored \<^verbatim>\<open>cipherText\<close> was changed
  and the signature kept.
\<close>

theorem encrypt_sign_envelope_witness:
  "putFileImpl (ex_env\<lparr>fetch := ex_tampered\<rparr>) ex_caller ''notes.txt'' (JStr ''hello'')
           (Some \<lparr>encrypt = Some (B True), sign = Some (B True)\<rparr>)
         = Inr [\<lparr>up_filename = ''notes.txt'',
                 up_contents = JStr (ex_stringify
                                       (signedCipherObject ex_signatureObject
                                          (ex_stringify ex_cipherObject))),
                 up_hubConfig = ex_hubConfig, up_contentType = ''application/json''\<rparr>]
   \<and> getFileImpl (ex_env\<lparr>fetch := ex_tampered\<rparr>) ex_caller ''notes.txt''
                   (Some \<lparr>decrypt = Some True, verify = Some True, username = None,
                          app = None, zoneFileLookupURL = None\<rparr>)
                 = Inl (SignatureVerificationError (SIGNATURE_MISMATCH_IN_FILE ''notes.txt''))"
proof -
  let ?E = "ex_env\<lparr>fetch := ex_tampered\<rparr>"
  let ?t = "ex_stringify (JObj [(''to'', JStr (ex_publicKey ''a1'')), (''data'', JStr ''jello'')])"
  have parse: "JSON_parse ?E
      (JStr (response_text (body (fetch ?E (getFullReadUrl ?E ''notes.txt'' ex_hubConfig)))))
                 = Some (signedCipherObject ex_signatureObject ?t)"
    by (simp add: ex_tampered_def ex_signatureObject_def ex_cipherObject_def ex_publicKey_def
        unary_def read_bytes_def signedCipherObject_def text_eval)
  have differs: "?t \<noteq> JSON_stringify ?E ex_cipherObject" "?t \<noteq> []"
    by (simp_all add: ex_cipherObject_def unary_def)
  have binding: "\<forall>m. m \<noteq> JSON_stringify ?E ex_cipherObject \<longrightarrow>
        verifyECDSA ?E (JStr m) (JStr (ex_publicKey ''a1''))
          (JStr (signature ex_signatureObject)) = Inr False"
    by (simp add: ex_verify_def ex_signatureObject_def ex_publicKey_def)
  have facts: "getPublicKeyFromPrivate ?E (appPrivateKey ex_caller) = Inr (ex_publicKey ''a1'')"
    "ex_publicKey ''a1'' \<noteq> []"
    "encryptECIES ?E (ex_publicKey ''a1'') (JStr ''hello'') = Inr ex_cipherObject"
    "signECDSA ?E (appPrivateKey ex_caller) (JStr (JSON_stringify ?E ex_cipherObject))
       = Inr ex_signatureObject"
    "publicKey ex_signatureObject = ex_publicKey ''a1''"
    "signature ex_signatureObject \<noteq> []"
    "publicKeyToAddress ?E (JStr (ex_publicKey ''a1'')) = Inr ex_address"
    "ex_address \<noteq> []"
    by (simp_all add: getPublicKeyFromPrivate_def publicKeyToAddress_def ex_encrypt_def
        ex_sign_def ex_cipherObject_def ex_signatureObject_def ex_publicKey_def ex_address_def)
  have stored: "getFullReadUrl ?E ''notes.txt'' ex_hubConfig \<noteq> []"
    "status (fetch ?E (getFullReadUrl ?E ''notes.txt'' ex_hubConfig)) = 200"
    by (simp_all add: ex_tampered_def)
  from differs binding
    encrypt_sign_envelope [of ex_caller "\<lparr>appDomain = ''https://app.example''\<rparr>" ?E
        ex_hubConfig "ex_publicKey ''a1''" "JStr ''hello''" ex_cipherObject ex_signatureObject
        ex_address "''notes.txt''" ?t, OF _ _ facts stored parse]
  show ?thesis by simp
qed

section \<open>Defaults\<close>

text \<open>
  C10. Get without options, or with \<^verbatim>\<open>decrypt\<close> or \<^verbatim>\<open>verify\<close> not set, is Get with
  \<^verbatim>\<open>decrypt\<close> true and \<^verbatim>\<open>verify\<close> false; Put without options, or with
  \<^verbatim>\<open>encrypt\<close> or \<^verbatim>\<open>sign\<close> not set, is Put with \<^verbatim>\<open>encrypt\<close> true and
  \<^verbatim>\<open>sign\<close> false. So a Put and a Get of a path without options are the round trip of
  the encrypting Put and the decrypting Get. In a session without an app configuration
  Get throws the invalid-state error, whatever the network and the collaborators are.
\<close>

theorem defaults_of_get_and_put:
  "getFileImpl E caller path None
     = getFileImpl E caller path
         (Some \<lparr>decrypt = Some True, verify = Some False, username = None, app = None,
                zoneFileLookupURL = None\<rparr>)
   \<and> getFileImpl E caller path (Some (os\<lparr>decrypt := None\<rparr>))
     = getFileImpl E caller path (Some (os\<lparr>decrypt := Some True\<rparr>))
   \<and> getFileImpl E caller path (Some (os\<lparr>verify := None\<rparr>))
     = getFileImpl E caller path (Some (os\<lparr>verify := Some False\<rparr>))
   \<and> putFileImpl E caller path content None
     = putFileImpl E caller path content (Some \<lparr>encrypt = Some (B True), sign = Some (B False)\<rparr>)
   \<and> putFileImpl E caller path content (Some (ps\<lparr>encrypt := None\<rparr>))
     = putFileImpl E caller path content (Some (ps\<lparr>encrypt := Some (B True)\<rparr>))
   \<and> putFileImpl E caller path content (Some (ps\<lparr>sign := None\<rparr>))
     = putFileImpl E caller path content (Some (ps\<lparr>sign := Some (B False)\<rparr>))
   \<and> (appConfig caller = Some ac \<and> putFileImpl E caller path content None = Inr ups
        \<and> (\<forall>u \<in> set ups. stores E u) \<and> collaborators_correct E caller hubConfig content \<longrightarrow>
      getFileImpl E caller path None = Inr content)
   \<and> getFileImpl E (caller\<lparr>appConfig := None\<rparr>) path options
     = Inl (InvalidStateError ''Missing AppConfig'')"
proof -
  have get_none: "getFileImpl E caller path None
     = getFileImpl E caller path
         (Some \<lparr>decrypt = Some True, verify = Some False, username = None, app = None,
                zoneFileLookupURL = None\<rparr>)"
    by (simp add: getFileImpl_def assign_get_def get_defaults_def split: option.splits)
  have put_none: "putFileImpl E caller path content None
     = putFileImpl E caller path content (Some \<lparr>encrypt = Some (B True), sign = Some (B False)\<rparr>)"
    by (simp add: putFileImpl_def assign_put_def put_defaults_def)
  have fields: "getFileImpl E caller path (Some (os\<lparr>decrypt := None\<rparr>))
       = getFileImpl E caller path (Some (os\<lparr>decrypt := Some True\<rparr>))
     \<and> getFileImpl E caller path (Some (os\<lparr>verify := None\<rparr>))
       = getFileImpl E caller path (Some (os\<lparr>verify := Some False\<rparr>))
     \<and> putFileImpl E caller path content (Some (ps\<lparr>encrypt := None\<rparr>))
       = putFileImpl E caller path content (Some (ps\<lparr>encrypt := Some (B True)\<rparr>))
     \<and> putFileImpl E caller path content (Some (ps\<lparr>sign := None\<rparr>))
       = putFileImpl E caller path content (Some (ps\<lparr>sign := Some (B False)\<rparr>))"
    by (simp add: getFileImpl_def putFileImpl_def assign_get_def assign_put_def get_defaults_def
        put_defaults_def split: option.splits)
  have trip: "appConfig caller = Some ac \<and> putFileImpl E caller path content None = Inr ups
        \<and> (\<forall>u \<in> set ups. stores E u) \<and> collaborators_correct E caller hubConfig content \<longrightarrow>
      getFileImpl E caller path None = Inr content"
    unfolding get_none put_none by (auto intro: roundtrip_encrypted)
  have state: "getFileImpl E (caller\<lparr>appConfig := None\<rparr>) path options
     = Inl (InvalidStateError ''Missing AppConfig'')"
    by (simp add: getFileImpl_def)
  from get_none put_none fields trip state show ?thesis by blast
qed

theorem defaults_of_get_and_put_witness:
  "getFileImpl (ex_env_after (JStr ''hello'') True False) ex_caller ''notes.txt'' None
     = Inr (JStr ''hello'')
   \<and> getFileImpl (ex_env_after (JStr ''hello'') True False) (ex_caller\<lparr>appConfig := None\<rparr>)
       ''notes.txt'' None
     = Inl (InvalidStateError ''Missing AppConfig'')"
proof -
  let ?E = "ex_env_after (JStr ''hello'') True False"
  have put: "putFileImpl ?E ex_caller ''notes.txt'' (JStr ''hello'') None
         = Inr (ex_uploads (JStr ''hello'') True False)"
    by (simp add: putFileImpl_def assign_put_def put_defaults_def resolveKeys_on
        encryptContentImpl_def ex_uploads_encrypted ex_encrypt_def ex_cipherObject_def)
  have hub: "\<forall>u \<in> set (ex_uploads (JStr ''hello'') True False). stores ?E u"
    by (simp add: ex_uploads_encrypted stores_def)
  note inst = defaults_of_get_and_put [of ?E ex_caller "''notes.txt''"
      "\<lparr>decrypt = None, verify = None, username = None, app = None, zoneFileLookupURL = None\<rparr>"
      "JStr ''hello''" "\<lparr>encrypt = None, sign = None\<rparr>"
      "\<lparr>appDomain = ''https://app.example''\<rparr>" "ex_uploads (JStr ''hello'') True False"
      ex_hubConfig None]
  from inst have trip: "appConfig ex_caller = Some \<lparr>appDomain = ''https://app.example''\<rparr>
        \<and> putFileImpl ?E ex_caller ''notes.txt'' (JStr ''hello'') None
            = Inr (ex_uploads (JStr ''hello'') True False)
        \<and> (\<forall>u \<in> set (ex_uploads (JStr ''hello'') True False). stores ?E u)
        \<and> collaborators_correct ?E ex_caller ex_hubConfig (JStr ''hello'') \<longrightarrow>
      getFileImpl ?E ex_caller ''notes.txt'' None = Inr (JStr ''hello'')"
    by blast
  from inst have state: "getFileImpl ?E (ex_caller\<lparr>appConfig := None\<rparr>) ''notes.txt'' None
     = Inl (InvalidStateError ''Missing AppConfig'')"
    by blast
  have "getFileImpl ?E ex_caller ''notes.txt'' None = Inr (JStr ''hello'')"
    using trip put hub ex_collaborators_correct [of True False] by simp
  with state show ?thesis by simp
qed

end
